theory Spec2Isabelle
  imports Main
begin

section \<open>JavaScript values and exceptions\<close>

text \<open>
  The editor is written in TypeScript. Values that cross a dynamically checked boundary
  (the argument of \<open>parseMarkdown\<close>, the JSON bodies returned by the remote API) are
  modelled by \<open>jsval\<close>. A \<open>string\<close> stands for a JavaScript string, one element per
  UTF-16 code unit, so \<open>take 100\<close> is \<open>substring(0, 100)\<close>. Numbers are the integral
  ones: the code only tests them for truthiness, prints them into a URL and compares
  them with \<open>!==\<close>.
\<close>

datatype jsval =
    Undefined
  | Null
  | Bool bool
  | Num int
  | Str string
  | Arr "jsval list"
  | Obj "(string \<times> jsval) list"

text \<open>A thrown exception is a value; \<open>message\<close> is its \<open>.message\<close> property.\<close>

datatype error =
    Error string
  | TypeError string
  | SyntaxError string
  | DOMException string

fun message_of :: "error \<Rightarrow> string" where
  "message_of (Error m) = m"
| "message_of (TypeError m) = m"
| "message_of (SyntaxError m) = m"
| "message_of (DOMException m) = m"

text \<open>\<open>try { body } catch (e) { handler(e) }\<close>\<close>

definition try_catch :: "(error + 'a) \<Rightarrow> (error \<Rightarrow> error + 'a) \<Rightarrow> error + 'a" where
  "try_catch body handler = (case body of Inl e \<Rightarrow> handler e | Inr v \<Rightarrow> Inr v)"

text \<open>Sequencing of two steps of which the first may throw.\<close>

definition and_then :: "(error + 'a) \<Rightarrow> ('a \<Rightarrow> error + 'b) \<Rightarrow> error + 'b" where
  "and_then m f = (case m of Inl e \<Rightarrow> Inl e | Inr v \<Rightarrow> f v)"

text \<open>JavaScript's \<open>ToBoolean\<close> (used by \<open>!x\<close>, \<open>x ? a : b\<close> and \<open>x || y\<close>).\<close>

fun truthy :: "jsval \<Rightarrow> bool" where
  "truthy Undefined = False"
| "truthy Null = False"
| "truthy (Bool b) = b"
| "truthy (Num n) = (n \<noteq> 0)"
| "truthy (Str s) = (s \<noteq> [])"
| "truthy (Arr _) = True"
| "truthy (Obj _) = True"

fun typeof :: "jsval \<Rightarrow> string" where
  "typeof Undefined = ''undefined''"
| "typeof Null = ''object''"
| "typeof (Bool _) = ''boolean''"
| "typeof (Num _) = ''number''"
| "typeof (Str _) = ''string''"
| "typeof (Arr _) = ''object''"
| "typeof (Obj _) = ''object''"

text \<open>\<open>a || b\<close>\<close>

definition js_or :: "jsval \<Rightarrow> jsval \<Rightarrow> jsval" where
  "js_or a b = (if truthy a then a else b)"

section \<open>Markdown renderer (lib/markdownParser.ts)\<close>

text \<open>
  \<open>purifyConfig\<close> is the constant handed to the sanitizer. The two libraries
  (\<open>marked.parse\<close> and \<open>DOMPurify.sanitize\<close>) are parameters of the model: each takes
  its argument and either returns a string or throws.
\<close>

record purify_config =
  ALLOWED_TAGS :: "string list"
  ALLOWED_ATTR :: "string list"
  ALLOW_DATA_ATTR :: bool
  KEEP_CONTENT :: bool

definition purifyConfig :: purify_config where
  "purifyConfig = \<lparr>
     ALLOWED_TAGS = [
       ''h1'', ''h2'', ''h3'', ''h4'', ''h5'', ''h6'',
       ''p'', ''br'', ''strong'', ''em'', ''u'', ''del'', ''s'',
       ''a'', ''img'',
       ''ul'', ''ol'', ''li'',
       ''blockquote'', ''pre'', ''code'',
       ''table'', ''thead'', ''tbody'', ''tr'', ''th'', ''td'',
       ''hr'',
       ''div'', ''span''],
     ALLOWED_ATTR = [
       ''href'', ''title'', ''alt'', ''src'',
       ''id'', ''class'',
       ''target'', ''rel''],
     ALLOW_DATA_ATTR = False,
     KEEP_CONTENT = True \<rparr>"

type_synonym marked_parse = "jsval \<Rightarrow> error + string"
type_synonym sanitizer = "string \<Rightarrow> purify_config \<Rightarrow> error + string"

definition parse_error_html :: string where
  "parse_error_html = ''<p>Error parsing markdown content.</p>''"

definition parseMarkdown :: "marked_parse \<Rightarrow> sanitizer \<Rightarrow> jsval \<Rightarrow> error + string" where
  "parseMarkdown marked sanitize markdown =
     (if \<not> truthy markdown \<or> typeof markdown \<noteq> ''string'' then Inr ''''
      else try_catch
             (and_then (marked markdown) (\<lambda>rawHTML.
              and_then (sanitize rawHTML purifyConfig) (\<lambda>sanitizedHTML.
              Inr sanitizedHTML)))
             (\<lambda>error. Inr parse_error_html))"

section \<open>Timers\<close>

text \<open>
  \<open>setTimeout\<close> and \<open>clearTimeout\<close> of the host, on a discrete clock in milliseconds.
  A timer carries what its callback closed over (\<open>task\<close>). Handles are allocated from
  \<open>next_id\<close>; the host starts it above zero, so that a handle is truthy.
\<close>

record 'k timer =
  tid :: nat
  due :: nat
  task :: 'k

record 'k timers =
  clock :: nat
  next_id :: nat
  pending :: "'k timer list"

definition setTimeout :: "'k \<Rightarrow> nat \<Rightarrow> 'k timers \<Rightarrow> nat \<times> 'k timers" where
  "setTimeout k delay w =
     (next_id w,
      w\<lparr>next_id := Suc (next_id w),
        pending := pending w @ [\<lparr>tid = next_id w, due = clock w + delay, task = k\<rparr>]\<rparr>)"

definition clearTimeout :: "nat \<Rightarrow> 'k timers \<Rightarrow> 'k timers" where
  "clearTimeout i w = w\<lparr>pending := filter (\<lambda>t. tid t \<noteq> i) (pending w)\<rparr>"

text \<open>The timers that have elapsed at time \<open>T\<close>, in firing order, and the world without them.\<close>

definition due_now :: "nat \<Rightarrow> 'k timers \<Rightarrow> 'k timer list" where
  "due_now T w = sort_key due (filter (\<lambda>t. due t \<le> T) (pending w))"

definition elapse :: "nat \<Rightarrow> 'k timers \<Rightarrow> 'k timers" where
  "elapse T w = w\<lparr>clock := max (clock w) T, pending := filter (\<lambda>t. \<not> due t \<le> T) (pending w)\<rparr>"

text \<open>\<open>if (timeoutId)\<close> on a handle that is \<open>null\<close> or a number.\<close>

fun handle_truthy :: "nat option \<Rightarrow> bool" where
  "handle_truthy None = False"
| "handle_truthy (Some i) = (i \<noteq> 0)"

section \<open>Debounced render scheduler (createDebouncedParser)\<close>











definition demo_sanitize :: sanitizer where
  "demo_sanitize h c = Inr h"

text \<open>A parser that throws on every input.\<close>

definition throwing_marked :: marked_parse where
  "throwing_marked v = Inl (Error ''marked(): input could not be parsed'')"



section \<open>Throttled autosave (hooks/useThrottledAutosave.ts)\<close>

text \<open>
  One mounted instance of the hook. The four refs keep their value between renders.
  \<open>as_deps\<close> is what React memoised for \<open>throttledSave\<close> at the last render (its
  dependency list \<open>[value, delay, enabled]\<close>), \<open>as_cleanup\<close> tells whether the last run
  of the second effect returned the cleanup function. A timer's task is the \<open>value\<close> its
  arrow function closed over. \<open>saved\<close> records every call of the save callback (the
  function called and its argument); the callback itself belongs to the caller and is
  taken to return. \<open>saveFunction\<close> has a function type, so the test
  \<open>typeof saveFunctionRef.current === 'function'\<close> is always true and left out.
  The comparison \<open>value !== lastSavedRef.current\<close> is inequality of the tracked values,
  as it is for the strings the editor tracks.
\<close>

record autosave_options =
  opt_delay :: "nat option"
  opt_enabled :: "bool option"

definition delay_of :: "autosave_options \<Rightarrow> nat" where
  "delay_of options = (case opt_delay options of None \<Rightarrow> 2000 | Some d \<Rightarrow> d)"

definition enabled_of :: "autosave_options \<Rightarrow> bool" where
  "enabled_of options = (case opt_enabled options of None \<Rightarrow> True | Some e \<Rightarrow> e)"

record ('a, 'f) autosave =
  timeoutRef :: "nat option"
  lastSavedRef :: 'a
  isFirstRenderRef :: bool
  saveFunctionRef :: 'f
  as_deps :: "('a \<times> nat \<times> bool) option"
  as_cleanup :: bool
  as_timers :: "'a timers"
  saved :: "('f \<times> 'a) list"

text \<open>The body of the timer callback armed by \<open>throttledSave\<close>.\<close>

definition run_save :: "'a timer \<Rightarrow> ('a, 'f) autosave \<Rightarrow> ('a, 'f) autosave" where
  "run_save t h =
     (if task t \<noteq> lastSavedRef h
      then h\<lparr>saved := saved h @ [(saveFunctionRef h, task t)], lastSavedRef := task t\<rparr>
      else h)"

definition throttledSave :: "'a \<Rightarrow> nat \<Rightarrow> bool \<Rightarrow> ('a, 'f) autosave \<Rightarrow> ('a, 'f) autosave" where
  "throttledSave value delay enabled h =
     (if \<not> enabled then h
      else
        let w1 = (if handle_truthy (timeoutRef h)
                  then clearTimeout (the (timeoutRef h)) (as_timers h)
                  else as_timers h);
            (i, w2) = setTimeout value delay w1
        in h\<lparr>timeoutRef := Some i, as_timers := w2\<rparr>)"

text \<open>The cleanup function returned by the second effect.\<close>

definition autosave_cleanup :: "('a, 'f) autosave \<Rightarrow> ('a, 'f) autosave" where
  "autosave_cleanup h =
     (if handle_truthy (timeoutRef h)
      then h\<lparr>as_timers := clearTimeout (the (timeoutRef h)) (as_timers h)\<rparr>
      else h)"

text \<open>The body of the second effect (dependency list \<open>[throttledSave]\<close>).\<close>

definition autosave_effect :: "'a \<Rightarrow> nat \<Rightarrow> bool \<Rightarrow> ('a, 'f) autosave \<Rightarrow> ('a, 'f) autosave" where
  "autosave_effect value delay enabled h =
     (if isFirstRenderRef h
      then h\<lparr>isFirstRenderRef := False, lastSavedRef := value, as_cleanup := False\<rparr>
      else (throttledSave value delay enabled h)\<lparr>as_cleanup := True\<rparr>)"

text \<open>
  The effects of one render. The first effect stores \<open>saveFunction\<close> in its ref. The
  second runs when \<open>throttledSave\<close> is a new function, that is when \<open>value\<close>, \<open>delay\<close> or
  \<open>enabled\<close> differs from the last render (or on mount); React runs the cleanup of its
  previous run first.
\<close>

definition run_effects ::
  "'a \<Rightarrow> 'f \<Rightarrow> nat \<Rightarrow> bool \<Rightarrow> ('a, 'f) autosave \<Rightarrow> ('a, 'f) autosave" where
  "run_effects value saveFunction delay enabled h =
     (let h1 = h\<lparr>saveFunctionRef := saveFunction\<rparr>
      in if as_deps h1 = Some (value, delay, enabled) then h1
         else
           let h2 = (if as_cleanup h1 then autosave_cleanup h1 else h1)
           in (autosave_effect value delay enabled h2)\<lparr>as_deps := Some (value, delay, enabled)\<rparr>)"

text \<open>The first render of the hook (mount) and every later render.\<close>

definition useThrottledAutosave_mount ::
  "'a \<Rightarrow> 'f \<Rightarrow> autosave_options \<Rightarrow> 'a timers \<Rightarrow> ('a, 'f) autosave" where
  "useThrottledAutosave_mount value saveFunction options w =
     run_effects value saveFunction (delay_of options) (enabled_of options)
       \<lparr>timeoutRef = None, lastSavedRef = value, isFirstRenderRef = True,
        saveFunctionRef = saveFunction, as_deps = None, as_cleanup = False,
        as_timers = w, saved = []\<rparr>"

definition useThrottledAutosave ::
  "'a \<Rightarrow> 'f \<Rightarrow> autosave_options \<Rightarrow> ('a, 'f) autosave \<Rightarrow> ('a, 'f) autosave" where
  "useThrottledAutosave value saveFunction options h =
     run_effects value saveFunction (delay_of options) (enabled_of options) h"

text \<open>
  \<open>forceSave\<close>, as returned by a render with the given \<open>value\<close> and \<open>enabled\<close> (its
  dependency list is \<open>[value, enabled]\<close>, so the caller always holds the one of the
  latest render).
\<close>

definition forceSave :: "'a \<Rightarrow> bool \<Rightarrow> ('a, 'f) autosave \<Rightarrow> ('a, 'f) autosave" where
  "forceSave value enabled h =
     (if enabled
      then
        let h1 = (if handle_truthy (timeoutRef h)
                  then h\<lparr>as_timers := clearTimeout (the (timeoutRef h)) (as_timers h),
                         timeoutRef := None\<rparr>
                  else h)
        in h1\<lparr>saved := saved h1 @ [(saveFunctionRef h1, value)], lastSavedRef := value\<rparr>
      else h)"

text \<open>The clock moves to \<open>T\<close>: every timer due by then fires.\<close>

definition as_advance :: "nat \<Rightarrow> ('a, 'f) autosave \<Rightarrow> ('a, 'f) autosave" where
  "as_advance T h =
     fold run_save (due_now T (as_timers h)) (h\<lparr>as_timers := elapse T (as_timers h)\<rparr>)"

text \<open>The value of the latest render.\<close>

definition current_value :: "('a, 'f) autosave \<Rightarrow> 'a option" where
  "current_value h = map_option fst (as_deps h)"

text \<open>
  What holds of every state of a mounted hook: handles are positive and below the next
  one to be allocated, at most one timer is pending, and a pending timer is the one
  \<open>timeoutRef\<close> names, was armed by the latest run of the effect and closed over the
  value of the latest render.
\<close>

definition autosave_inv :: "('a, 'f) autosave \<Rightarrow> bool" where
  "autosave_inv h =
     (0 < next_id (as_timers h)
      \<and> \<not> isFirstRenderRef h
      \<and> as_deps h \<noteq> None
      \<and> (case timeoutRef h of None \<Rightarrow> True | Some i \<Rightarrow> 0 < i \<and> i < next_id (as_timers h))
      \<and> length (pending (as_timers h)) \<le> 1
      \<and> (\<forall>t \<in> set (pending (as_timers h)).
            timeoutRef h = Some (tid t) \<and> as_cleanup h \<and> current_value h = Some (task t)))"

text \<open>
  The states a mounted hook can be in: it is mounted on a host with no timer of its own
  pending, then rendered again, left alone while the clock moves, or asked to save now
  through the \<open>forceSave\<close> of its latest render.
\<close>

inductive autosave_reachable :: "('a, 'f) autosave \<Rightarrow> bool" where
  mounted: "pending w = [] \<Longrightarrow> 0 < next_id w \<Longrightarrow>
     autosave_reachable (useThrottledAutosave_mount v f options w)"
| rendered: "autosave_reachable h \<Longrightarrow> autosave_reachable (useThrottledAutosave v f options h)"
| waited: "autosave_reachable h \<Longrightarrow> autosave_reachable (as_advance T h)"
| forced: "autosave_reachable h \<Longrightarrow> as_deps h = Some (v, d, e) \<Longrightarrow>
     autosave_reachable (forceSave v e h)"

definition demo_timers :: "string timers" where
  "demo_timers = \<lparr>clock = 0, next_id = 1, pending = []\<rparr>"

definition demo_options :: autosave_options where
  "demo_options = \<lparr>opt_delay = None, opt_enabled = None\<rparr>"

text \<open>Mounted with \<open>''a''\<close> at time 0; the user types \<open>''ab''\<close> at time 100.\<close>

definition demo_typed :: "(string, string) autosave" where
  "demo_typed =
     useThrottledAutosave ''ab'' ''autosaveToStorage'' demo_options
       (as_advance 100 (useThrottledAutosave_mount ''a'' ''autosaveToStorage'' demo_options demo_timers))"

section \<open>Remote document client (lib/api.ts)\<close>

text \<open>Decimal rendering of a number inside a template literal, as in \<open>`/posts/${id}`\<close>.\<close>

fun show_nat :: "nat \<Rightarrow> string" where
  "show_nat n =
     (if n < 10 then [''0123456789'' ! n]
      else show_nat (n div 10) @ [''0123456789'' ! (n mod 10)])"

declare show_nat.simps [simp del]

definition show_int :: "int \<Rightarrow> string" where
  "show_int i = (if i < 0 then ''-'' @ show_nat (nat (- i)) else show_nat (nat i))"

text \<open>A document id is a \<open>string | number\<close>.\<close>

datatype docid = IdStr string | IdNum int

fun id_text :: "docid \<Rightarrow> string" where
  "id_text (IdStr s) = s"
| "id_text (IdNum n) = show_int n"

fun id_val :: "docid \<Rightarrow> jsval" where
  "id_val (IdStr s) = Str s"
| "id_val (IdNum n) = Num n"

record api_endpoint =
  ep_name :: string
  baseUrl :: string
  ep_posts :: string
  ep_post :: "docid \<Rightarrow> string"

record api_config =
  primary :: api_endpoint
  fallback :: api_endpoint

definition API_CONFIG :: api_config where
  "API_CONFIG = \<lparr>
     primary = \<lparr>ep_name = ''oluwasetemi'', baseUrl = ''https://api.oluwasetemi.dev'',
                ep_posts = ''/posts'', ep_post = (\<lambda>i. ''/posts/'' @ id_text i)\<rparr>,
     fallback = \<lparr>ep_name = ''jsonplaceholder'', baseUrl = ''https://jsonplaceholder.typicode.com'',
                 ep_posts = ''/posts'', ep_post = (\<lambda>i. ''/posts/'' @ id_text i)\<rparr>\<rparr>"

text \<open>
  The \<open>RequestInit\<close> a caller passes (an absent key is \<open>None\<close>), the request \<open>fetch\<close>
  receives, and what \<open>fetch\<close> does with it: the promise is rejected, or it resolves to
  a response whose \<open>json()\<close> either yields a value or throws. A request body is kept as
  the value \<open>JSON.stringify\<close> was applied to. The network is a parameter: any function
  from requests to outcomes; every request issued is appended to a log.
\<close>

record request_init =
  ri_method :: "string option"
  ri_headers :: "(string \<times> string) list option"
  ri_body :: "jsval option"

record request =
  req_url :: string
  req_method :: "string option"
  req_headers :: "(string \<times> string) list"
  req_body :: "jsval option"

record response =
  status :: nat
  statusText :: string
  json :: "error + jsval"

datatype fetch_outcome = Rejected error | Responded response

type_synonym network = "request \<Rightarrow> fetch_outcome"

text \<open>\<open>response.ok\<close>: the status is in the range 200-299.\<close>

definition ok :: "response \<Rightarrow> bool" where
  "ok r = (200 \<le> status r \<and> status r \<le> 299)"

definition no_options :: request_init where
  "no_options = \<lparr>ri_method = None, ri_headers = None, ri_body = None\<rparr>"

text \<open>
  \<open>defaultOptions\<close>: the headers start from \<open>Content-Type\<close> followed by the caller's
  headers; the spread \<open>...options\<close> that follows replaces them by the caller's own
  \<open>headers\<close> when that key is present.
\<close>

definition defaultOptions :: "string \<Rightarrow> request_init \<Rightarrow> request" where
  "defaultOptions url options =
     \<lparr>req_url = url,
      req_method = ri_method options,
      req_headers =
        (case ri_headers options of
           None \<Rightarrow> [(''Content-Type'', ''application/json'')]
         | Some hs \<Rightarrow> hs),
      req_body = ri_body options\<rparr>"

definition apiRequest ::
  "network \<Rightarrow> string \<Rightarrow> request_init \<Rightarrow> request list \<Rightarrow> (error + jsval) \<times> request list" where
  "apiRequest net url options log =
     (try_catch
        (case net (defaultOptions url options) of
           Rejected e \<Rightarrow> Inl e
         | Responded r \<Rightarrow>
             if \<not> ok r
             then Inl (Error (''API Error: '' @ show_nat (status r) @ '' '' @ statusText r))
             else json r)
        (\<lambda>e. Inl e),
      log @ [defaultOptions url options])"

definition apiRequestWithFallback ::
  "network \<Rightarrow> string \<Rightarrow> request_init \<Rightarrow> request list \<Rightarrow> (error + jsval) \<times> request list" where
  "apiRequestWithFallback net endpoint options log =
     (case apiRequest net (baseUrl (primary API_CONFIG) @ endpoint) options log of
        (Inr v, log1) \<Rightarrow> (Inr v, log1)
      | (Inl primaryError, log1) \<Rightarrow>
          (case apiRequest net (baseUrl (fallback API_CONFIG) @ endpoint) options log1 of
             (Inr v, log2) \<Rightarrow> (Inr v, log2)
           | (Inl fallbackError, log2) \<Rightarrow>
               (Inl (Error ''All API endpoints are unavailable''), log2)))"

record api_response =
  success :: bool
  data :: "jsval option"
  error :: "string option"
  message :: string

definition succeeded :: "jsval option \<Rightarrow> string \<Rightarrow> api_response" where
  "succeeded d m = \<lparr>success = True, data = d, error = None, message = m\<rparr>"

definition failed :: "error \<Rightarrow> string \<Rightarrow> api_response" where
  "failed e m = \<lparr>success = False, data = None, error = Some (message_of e), message = m\<rparr>"

text \<open>
  Reading a property \<open>v.k\<close>, for the keys the client reads (\<open>id\<close>, \<open>title\<close>, \<open>body\<close>,
  \<open>tags\<close>, \<open>createdAt\<close>, \<open>type\<close>): a \<open>TypeError\<close> on \<open>null\<close> and \<open>undefined\<close>, the
  member of an object, \<open>undefined\<close> on everything else.
\<close>

fun get_prop :: "jsval \<Rightarrow> string \<Rightarrow> error + jsval" where
  "get_prop Undefined k =
     Inl (TypeError (''Cannot read properties of undefined (reading '' @ k @ '')''))"
| "get_prop Null k =
     Inl (TypeError (''Cannot read properties of null (reading '' @ k @ '')''))"
| "get_prop (Obj kvs) k = Inr (case map_of kvs k of None \<Rightarrow> Undefined | Some v \<Rightarrow> v)"
| "get_prop _ k = Inr Undefined"

text \<open>\<open>v.substring(0, n)\<close> on a truthy \<open>v\<close>: only a string has the method.\<close>

fun substring0 :: "jsval \<Rightarrow> nat \<Rightarrow> error + string" where
  "substring0 (Str s) n = Inr (take n s)"
| "substring0 _ n = Inl (TypeError ''doc.body.substring is not a function'')"

text \<open>\<open>xs.map(f)\<close> where \<open>f\<close> may throw: the first exception ends the loop.\<close>

fun map_throwing :: "('a \<Rightarrow> error + 'b) \<Rightarrow> 'a list \<Rightarrow> error + 'b list" where
  "map_throwing f [] = Inr []"
| "map_throwing f (x # xs) =
     and_then (f x) (\<lambda>y. and_then (map_throwing f xs) (\<lambda>ys. Inr (y # ys)))"

text \<open>
  The payload of a save. \<open>now\<close> is \<open>new Date().toISOString()\<close>; \<open>tags\<close> is \<open>None\<close> when
  the argument is omitted and then takes the default \<open>''\<close>.
\<close>

definition save_payload :: "string \<Rightarrow> string \<Rightarrow> string \<Rightarrow> string option \<Rightarrow> (string \<times> jsval) list" where
  "save_payload now title content tags =
     [(''title'', js_or (Str title) (Str ''Untitled Document'')),
      (''body'', Str content),
      (''userId'', Num 1),
      (''tags'', js_or (Str (case tags of None \<Rightarrow> '''' | Some t \<Rightarrow> t)) (Str '''')),
      (''createdAt'', Str now),
      (''type'', Str ''markdown'')]"

definition saveMarkdownToAPI ::
  "network \<Rightarrow> string \<Rightarrow> string \<Rightarrow> string \<Rightarrow> string option \<Rightarrow> request list
     \<Rightarrow> (error + api_response) \<times> request list" where
  "saveMarkdownToAPI net now title content tags log =
     (case apiRequestWithFallback net (ep_posts (primary API_CONFIG))
             \<lparr>ri_method = Some ''POST'', ri_headers = None,
              ri_body = Some (Obj (save_payload now title content tags))\<rparr> log of
        (r, log') \<Rightarrow>
          (try_catch
             (and_then r (\<lambda>result.
                Inr (succeeded (Some result) ''Document saved successfully'')))
             (\<lambda>e. Inr (failed e ''Failed to save document to API'')),
           log'))"

definition loaded_document :: "string \<Rightarrow> jsval \<Rightarrow> error + jsval" where
  "loaded_document now result =
     and_then (get_prop result ''id'') (\<lambda>rid.
     and_then (get_prop result ''title'') (\<lambda>rtitle.
     and_then (get_prop result ''body'') (\<lambda>rbody.
     and_then (get_prop result ''tags'') (\<lambda>rtags.
     and_then (get_prop result ''createdAt'') (\<lambda>rcreated.
     and_then (get_prop result ''type'') (\<lambda>rtype.
       Inr (Obj [(''id'', rid),
                 (''title'', rtitle),
                 (''content'', rbody),
                 (''tags'', js_or rtags (Str '''')),
                 (''createdAt'', js_or rcreated (Str now)),
                 (''type'', js_or rtype (Str ''markdown''))])))))))"

definition loadMarkdownFromAPI ::
  "network \<Rightarrow> string \<Rightarrow> docid \<Rightarrow> request list \<Rightarrow> (error + api_response) \<times> request list" where
  "loadMarkdownFromAPI net now documentId log =
     (case apiRequestWithFallback net (ep_post (primary API_CONFIG) documentId) no_options log of
        (r, log') \<Rightarrow>
          (try_catch
             (and_then r (\<lambda>result.
              and_then (loaded_document now result) (\<lambda>d.
                Inr (succeeded (Some d) ''Document loaded successfully''))))
             (\<lambda>e. Inr (failed e ''Failed to load document from API'')),
           log'))"

text \<open>\<open>Array.isArray(result) ? result : [result]\<close>\<close>

fun documents_of :: "jsval \<Rightarrow> jsval list" where
  "documents_of (Arr ds) = ds"
| "documents_of v = [v]"

text \<open>The arrow function mapped over the documents.\<close>

definition document_preview :: "string \<Rightarrow> jsval \<Rightarrow> error + jsval" where
  "document_preview now doc =
     and_then (get_prop doc ''id'') (\<lambda>rid.
     and_then (get_prop doc ''title'') (\<lambda>rtitle.
     and_then (get_prop doc ''body'') (\<lambda>rbody.
     and_then (if truthy rbody
               then and_then (substring0 rbody 100) (\<lambda>s. Inr (Str (s @ ''...'')))
               else Inr (Str '''')) (\<lambda>rpreview.
     and_then (get_prop doc ''createdAt'') (\<lambda>rcreated.
     and_then (get_prop doc ''type'') (\<lambda>rtype.
       Inr (Obj [(''id'', rid),
                 (''title'', rtitle),
                 (''preview'', rpreview),
                 (''createdAt'', js_or rcreated (Str now)),
                 (''type'', js_or rtype (Str ''markdown''))])))))))"

definition listMarkdownDocuments ::
  "network \<Rightarrow> string \<Rightarrow> int option \<Rightarrow> request list \<Rightarrow> (error + api_response) \<times> request list" where
  "listMarkdownDocuments net now limit log =
     (case apiRequestWithFallback net
             (ep_posts (primary API_CONFIG) @ ''?_limit=''
                @ show_int (case limit of None \<Rightarrow> 10 | Some n \<Rightarrow> n))
             no_options log of
        (r, log') \<Rightarrow>
          (try_catch
             (and_then r (\<lambda>result.
              and_then (map_throwing (document_preview now) (documents_of result)) (\<lambda>ps.
                Inr (succeeded (Some (Arr ps)) ''Documents retrieved successfully''))))
             (\<lambda>e. Inr (failed e ''Failed to retrieve documents from API'')),
           log'))"

definition deleteMarkdownFromAPI ::
  "network \<Rightarrow> docid \<Rightarrow> request list \<Rightarrow> (error + api_response) \<times> request list" where
  "deleteMarkdownFromAPI net documentId log =
     (case apiRequestWithFallback net (ep_post (primary API_CONFIG) documentId)
             \<lparr>ri_method = Some ''DELETE'', ri_headers = None, ri_body = None\<rparr> log of
        (r, log') \<Rightarrow>
          (try_catch
             (and_then r (\<lambda>result.
                Inr (succeeded None ''Document deleted successfully'')))
             (\<lambda>e. Inr (failed e ''Failed to delete document from API'')),
           log'))"

definition update_payload ::
  "string \<Rightarrow> docid \<Rightarrow> string \<Rightarrow> string \<Rightarrow> string option \<Rightarrow> (string \<times> jsval) list" where
  "update_payload now documentId title content tags =
     [(''id'', id_val documentId),
      (''title'', js_or (Str title) (Str ''Untitled Document'')),
      (''body'', Str content),
      (''userId'', Num 1),
      (''tags'', js_or (Str (case tags of None \<Rightarrow> '''' | Some t \<Rightarrow> t)) (Str '''')),
      (''updatedAt'', Str now),
      (''type'', Str ''markdown'')]"

definition updateMarkdownInAPI ::
  "network \<Rightarrow> string \<Rightarrow> docid \<Rightarrow> string \<Rightarrow> string \<Rightarrow> string option \<Rightarrow> request list
     \<Rightarrow> (error + api_response) \<times> request list" where
  "updateMarkdownInAPI net now documentId title content tags log =
     (case apiRequestWithFallback net (ep_post (primary API_CONFIG) documentId)
             \<lparr>ri_method = Some ''PUT'', ri_headers = None,
              ri_body = Some (Obj (update_payload now documentId title content tags))\<rparr> log of
        (r, log') \<Rightarrow>
          (try_catch
             (and_then r (\<lambda>result.
                Inr (succeeded (Some result) ''Document updated successfully'')))
             (\<lambda>e. Inr (failed e ''Failed to update document in API'')),
           log'))"

text \<open>
  The five operations of the client. \<open>perform\<close> runs one of them on an empty request
  log; \<open>op_endpoint\<close> and \<open>op_options\<close> are the path and the \<open>RequestInit\<close> it passes to
  \<open>apiRequestWithFallback\<close>.
\<close>

datatype operation =
    Save string string "string option"
  | Load docid
  | List "int option"
  | Delete docid
  | Update docid string string "string option"

fun perform :: "network \<Rightarrow> string \<Rightarrow> operation \<Rightarrow> (error + api_response) \<times> request list" where
  "perform net now (Save title content tags) = saveMarkdownToAPI net now title content tags []"
| "perform net now (Load documentId) = loadMarkdownFromAPI net now documentId []"
| "perform net now (List limit) = listMarkdownDocuments net now limit []"
| "perform net now (Delete documentId) = deleteMarkdownFromAPI net documentId []"
| "perform net now (Update documentId title content tags) =
     updateMarkdownInAPI net now documentId title content tags []"

fun op_endpoint :: "operation \<Rightarrow> string" where
  "op_endpoint (Save title content tags) = ep_posts (primary API_CONFIG)"
| "op_endpoint (Load documentId) = ep_post (primary API_CONFIG) documentId"
| "op_endpoint (List limit) =
     ep_posts (primary API_CONFIG) @ ''?_limit='' @ show_int (case limit of None \<Rightarrow> 10 | Some n \<Rightarrow> n)"
| "op_endpoint (Delete documentId) = ep_post (primary API_CONFIG) documentId"
| "op_endpoint (Update documentId title content tags) = ep_post (primary API_CONFIG) documentId"

fun op_options :: "string \<Rightarrow> operation \<Rightarrow> request_init" where
  "op_options now (Save title content tags) =
     \<lparr>ri_method = Some ''POST'', ri_headers = None,
      ri_body = Some (Obj (save_payload now title content tags))\<rparr>"
| "op_options now (Load documentId) = no_options"
| "op_options now (List limit) = no_options"
| "op_options now (Delete documentId) =
     \<lparr>ri_method = Some ''DELETE'', ri_headers = None, ri_body = None\<rparr>"
| "op_options now (Update documentId title content tags) =
     \<lparr>ri_method = Some ''PUT'', ri_headers = None,
      ri_body = Some (Obj (update_payload now documentId title content tags))\<rparr>"


text \<open>
  An attempt fails when \<open>apiRequest\<close> throws: the promise of \<open>fetch\<close> is rejected, the
  status is not 2xx, or \<open>response.json()\<close> throws.
\<close>

definition attempt_failed :: "network \<Rightarrow> request \<Rightarrow> bool" where
  "attempt_failed net req =
     (case net req of
        Rejected e \<Rightarrow> True
      | Responded r \<Rightarrow> \<not> ok r \<or> (case json r of Inl e \<Rightarrow> True | Inr v \<Rightarrow> False))"


definition primary_request :: "string \<Rightarrow> operation \<Rightarrow> request" where
  "primary_request now opn =
     defaultOptions (baseUrl (primary API_CONFIG) @ op_endpoint opn) (op_options now opn)"

definition fallback_request :: "string \<Rightarrow> operation \<Rightarrow> request" where
  "fallback_request now opn =
     defaultOptions (baseUrl (fallback API_CONFIG) @ op_endpoint opn) (op_options now opn)"

text \<open>Three networks: both hosts down; an empty 204 from the primary host; \<open>null\<close> bodies.\<close>

definition net_down :: network where
  "net_down req =
     (if req_url req = ''https://api.oluwasetemi.dev/posts/7''
      then Responded \<lparr>status = 503, statusText = ''Service Unavailable'', json = Inr Null\<rparr>
      else Rejected (TypeError ''Failed to fetch''))"



text \<open>
  The \<open>body\<close> of a returned document, and the documents the preview is defined for:
  those that are not \<open>null\<close> and whose body, when truthy, is a string.
\<close>

definition body_of :: "jsval \<Rightarrow> jsval" where
  "body_of d = (case get_prop d ''body'' of Inl e \<Rightarrow> Undefined | Inr b \<Rightarrow> b)"

definition previewable :: "jsval \<Rightarrow> bool" where
  "previewable d =
     (case get_prop d ''body'' of
        Inl e \<Rightarrow> False
      | Inr b \<Rightarrow> truthy b \<longrightarrow> typeof b = ''string'')"

text \<open>How a preview \<open>p\<close> relates to its document \<open>d\<close>.\<close>

definition preview_of :: "jsval \<Rightarrow> jsval \<Rightarrow> bool" where
  "preview_of d p =
     (get_prop p ''preview'' =
        Inr (Str (case body_of d of
                    Str s \<Rightarrow> if s = [] then [] else take 100 s @ ''...''
                  | _ \<Rightarrow> []))
      \<and> get_prop p ''id'' = get_prop d ''id''
      \<and> get_prop p ''title'' = get_prop d ''title'')"

text \<open>
  The primary host is down; the fallback host answers a list request with one object
  (not an array) whose body has 120 characters.
\<close>

definition long_document :: jsval where
  "long_document =
     Obj [(''id'', Num 3), (''title'', Str ''Notes''), (''body'', Str (replicate 120 (CHR ''x'')))]"

definition net_single :: network where
  "net_single req =
     (if req_url req = ''https://jsonplaceholder.typicode.com/posts?_limit=7''
      then Responded \<lparr>status = 200, statusText = ''OK'', json = Inr long_document\<rparr>
      else Rejected (TypeError ''Failed to fetch''))"

text \<open>The primary host answers with one document whose body is empty.\<close>

definition net_empty_body :: network where
  "net_empty_body req =
     Responded \<lparr>status = 200, statusText = ''OK'',
                json = Inr (Arr [Obj [(''id'', Num 3), (''title'', Str ''Draft''), (''body'', Str [])]])\<rparr>"

section \<open>Local persistence store (hooks/useLocalStorage.ts)\<close>

text \<open>
  The host of the hook: whether \<open>window\<close> is defined, \<open>localStorage.getItem\<close> and
  \<open>localStorage.setItem\<close> on a storage of type \<open>'st\<close> (either may throw), and
  \<open>JSON.parse\<close> and \<open>JSON.stringify\<close> for the stored type \<open>'a\<close> (either may throw). The
  state of the hook is the React state \<open>storedValue\<close>, the storage, and what was written
  to \<open>console.error\<close>.
\<close>

record ('a, 'st) host =
  window_defined :: bool
  getItem :: "'st \<Rightarrow> string \<Rightarrow> error + string option"
  setItem :: "'st \<Rightarrow> string \<Rightarrow> string \<Rightarrow> error + 'st"
  JSON_parse :: "string \<Rightarrow> error + 'a"
  JSON_stringify :: "'a \<Rightarrow> error + string"

record ('a, 'st) local_storage =
  storedValue :: 'a
  ls_store :: 'st
  console :: "(string \<times> error) list"

definition reading_error :: "string \<Rightarrow> string" where
  "reading_error key = ''Error reading localStorage key '' @ [CHR 0x22] @ key @ [CHR 0x22] @ '':''"

definition setting_error :: "string \<Rightarrow> string" where
  "setting_error key = ''Error setting localStorage key '' @ [CHR 0x22] @ key @ [CHR 0x22] @ '':''"

text \<open>The initializer passed to \<open>useState\<close>, run on the first render.\<close>

definition useLocalStorage ::
  "('a, 'st) host \<Rightarrow> string \<Rightarrow> 'a \<Rightarrow> 'st \<Rightarrow> error + ('a, 'st) local_storage" where
  "useLocalStorage h key initialValue st =
     try_catch
       (and_then
          (if \<not> window_defined h then Inr initialValue
           else and_then (getItem h st key) (\<lambda>item.
                  case item of
                    None \<Rightarrow> Inr initialValue
                  | Some text \<Rightarrow> if text \<noteq> [] then JSON_parse h text else Inr initialValue))
          (\<lambda>v. Inr \<lparr>storedValue = v, ls_store = st, console = []\<rparr>))
       (\<lambda>e. Inr \<lparr>storedValue = initialValue, ls_store = st, console = [(reading_error key, e)]\<rparr>)"

definition valueToStore_of :: "'a + ('a \<Rightarrow> error + 'a) \<Rightarrow> 'a \<Rightarrow> error + 'a" where
  "valueToStore_of value previous = (case value of Inl v \<Rightarrow> Inr v | Inr f \<Rightarrow> f previous)"

definition setValue ::
  "('a, 'st) host \<Rightarrow> string \<Rightarrow> 'a + ('a \<Rightarrow> error + 'a) \<Rightarrow> ('a, 'st) local_storage
     \<Rightarrow> error + ('a, 'st) local_storage" where
  "setValue h key value s =
     (case valueToStore_of value (storedValue s) of
        Inl e \<Rightarrow> Inr (s\<lparr>console := console s @ [(setting_error key, e)]\<rparr>)
      | Inr valueToStore \<Rightarrow>
          (let s1 = s\<lparr>storedValue := valueToStore\<rparr>
           in if window_defined h
              then (case and_then (JSON_stringify h valueToStore) (\<lambda>text.
                           setItem h (ls_store s1) key text) of
                      Inl e \<Rightarrow> Inr (s1\<lparr>console := console s1 @ [(setting_error key, e)]\<rparr>)
                    | Inr st' \<Rightarrow> Inr (s1\<lparr>ls_store := st'\<rparr>))
              else Inr s1))"

text \<open>
  A host whose storage is an association list with room for short texts only, and
  whose serialisation is the quoted string.
\<close>

definition demo_host :: "(string, (string \<times> string) list) host" where
  "demo_host =
     \<lparr>window_defined = True,
      getItem = (\<lambda>st k. Inr (map_of st k)),
      setItem = (\<lambda>st k v. if 8 < length v then Inl (DOMException ''QuotaExceededError'')
                           else Inr ((k, v) # st)),
      JSON_parse = (\<lambda>text. if 2 \<le> length text \<and> hd text = CHR 0x22 \<and> last text = CHR 0x22
                             then Inr (butlast (tl text))
                             else Inl (SyntaxError ''Unexpected token'')),
      JSON_stringify = (\<lambda>v. Inr ([CHR 0x22] @ v @ [CHR 0x22]))\<rparr>"

text \<open>The same host, with values that cannot be serialised.\<close>

definition cyclic_host :: "(string, (string \<times> string) list) host" where
  "cyclic_host =
     demo_host\<lparr>JSON_stringify := (\<lambda>v. Inl (TypeError ''Converting circular structure to JSON''))\<rparr>"

definition welcome_state :: "(string, (string \<times> string) list) local_storage" where
  "welcome_state = \<lparr>storedValue = ''# Welcome'', ls_store = [], console = []\<rparr>"

section \<open>Sync orchestrator (hooks/useCloudSync.ts)\<close>

text \<open>
  The state of the orchestrator (the four \<open>useState\<close> cells of \<open>useCloudSync\<close>).
  \<open>cloudDocuments\<close> holds whatever the list operation returned as \<open>data\<close>.
\<close>

record sync_state =
  isLoading :: bool
  sync_error :: "string option"
  cloudDocuments :: jsval
  lastSyncTime :: "string option"

text \<open>\<open>result.message || fallback\<close>\<close>

definition message_or :: "string \<Rightarrow> string \<Rightarrow> string" where
  "message_or m fallback_text = (if m \<noteq> [] then m else fallback_text)"

text \<open>The result a \<open>catch\<close> branch returns.\<close>

definition network_failure :: "string \<Rightarrow> api_response" where
  "network_failure errorMsg = \<lparr>success = False, data = None, error = None, message = errorMsg\<rparr>"

text \<open>
  Each operation takes \<open>awaited\<close>, the outcome of awaiting the client call: the
  resolved result, or the exception of a rejected promise. \<open>now\<close> is
  \<open>new Date().toISOString()\<close>. The state returned is the one after the \<open>finally\<close>.
\<close>

definition saveToCloud ::
  "error + api_response \<Rightarrow> string \<Rightarrow> sync_state \<Rightarrow> error + api_response \<times> sync_state" where
  "saveToCloud awaited now s =
     (let s1 = s\<lparr>isLoading := True, sync_error := None\<rparr>
      in case awaited of
           Inr result \<Rightarrow>
             if success result
             then Inr (result, s1\<lparr>lastSyncTime := Some now, isLoading := False\<rparr>)
             else Inr (result,
                       s1\<lparr>sync_error := Some (message_or (message result) ''Failed to save to cloud''),
                          isLoading := False\<rparr>)
         | Inl err \<Rightarrow>
             Inr (network_failure ''Network error: Unable to save to cloud'',
                  s1\<lparr>sync_error := Some ''Network error: Unable to save to cloud'',
                     isLoading := False\<rparr>))"

definition loadFromCloud ::
  "error + api_response \<Rightarrow> string \<Rightarrow> sync_state \<Rightarrow> error + api_response \<times> sync_state" where
  "loadFromCloud awaited now s =
     (let s1 = s\<lparr>isLoading := True, sync_error := None\<rparr>
      in case awaited of
           Inr result \<Rightarrow>
             if success result
             then Inr (result, s1\<lparr>lastSyncTime := Some now, isLoading := False\<rparr>)
             else Inr (result,
                       s1\<lparr>sync_error := Some (message_or (message result) ''Failed to load from cloud''),
                          isLoading := False\<rparr>)
         | Inl err \<Rightarrow>
             Inr (network_failure ''Network error: Unable to load from cloud'',
                  s1\<lparr>sync_error := Some ''Network error: Unable to load from cloud'',
                     isLoading := False\<rparr>))"

definition listCloudDocuments ::
  "error + api_response \<Rightarrow> string \<Rightarrow> sync_state \<Rightarrow> error + api_response \<times> sync_state" where
  "listCloudDocuments awaited now s =
     (let s1 = s\<lparr>isLoading := True, sync_error := None\<rparr>
      in case awaited of
           Inr result \<Rightarrow>
             if success result
             then Inr (result,
                       s1\<lparr>cloudDocuments := (case data result of None \<Rightarrow> Undefined | Some d \<Rightarrow> d),
                          lastSyncTime := Some now, isLoading := False\<rparr>)
             else Inr (result,
                       s1\<lparr>sync_error := Some (message_or (message result) ''Failed to list cloud documents''),
                          isLoading := False\<rparr>)
         | Inl err \<Rightarrow>
             Inr (network_failure ''Network error: Unable to fetch cloud documents'',
                  s1\<lparr>sync_error := Some ''Network error: Unable to fetch cloud documents'',
                     isLoading := False\<rparr>))"

text \<open>
  \<open>prev.filter(doc => doc.id !== documentId)\<close>, the updater of a successful delete.
  React applies it outside the \<open>try\<close>; it throws when \<open>prev\<close> is not an array or holds
  \<open>null\<close>.
\<close>

fun filter_throwing :: "('a \<Rightarrow> error + bool) \<Rightarrow> 'a list \<Rightarrow> error + 'a list" where
  "filter_throwing f [] = Inr []"
| "filter_throwing f (x # xs) =
     and_then (f x) (\<lambda>keep.
     and_then (filter_throwing f xs) (\<lambda>ys. Inr (if keep then x # ys else ys)))"

fun without_document :: "docid \<Rightarrow> jsval \<Rightarrow> error + jsval" where
  "without_document documentId (Arr docs) =
     and_then (filter_throwing
                 (\<lambda>doc. and_then (get_prop doc ''id'') (\<lambda>i. Inr (i \<noteq> id_val documentId))) docs)
       (\<lambda>kept. Inr (Arr kept))"
| "without_document documentId prev = Inl (TypeError ''prev.filter is not a function'')"

definition deleteFromCloud ::
  "docid \<Rightarrow> error + api_response \<Rightarrow> string \<Rightarrow> sync_state \<Rightarrow> error + api_response \<times> sync_state" where
  "deleteFromCloud documentId awaited now s =
     (let s1 = s\<lparr>isLoading := True, sync_error := None\<rparr>
      in case awaited of
           Inr result \<Rightarrow>
             if success result
             then and_then (without_document documentId (cloudDocuments s1)) (\<lambda>docs.
                    Inr (result,
                         s1\<lparr>cloudDocuments := docs, lastSyncTime := Some now, isLoading := False\<rparr>))
             else Inr (result,
                       s1\<lparr>sync_error := Some (message_or (message result) ''Failed to delete from cloud''),
                          isLoading := False\<rparr>)
         | Inl err \<Rightarrow>
             Inr (network_failure ''Network error: Unable to delete from cloud'',
                  s1\<lparr>sync_error := Some ''Network error: Unable to delete from cloud'',
                     isLoading := False\<rparr>))"

definition updateInCloud ::
  "error + api_response \<Rightarrow> string \<Rightarrow> sync_state \<Rightarrow> error + api_response \<times> sync_state" where
  "updateInCloud awaited now s =
     (let s1 = s\<lparr>isLoading := True, sync_error := None\<rparr>
      in case awaited of
           Inr result \<Rightarrow>
             if success result
             then Inr (result, s1\<lparr>lastSyncTime := Some now, isLoading := False\<rparr>)
             else Inr (result,
                       s1\<lparr>sync_error := Some (message_or (message result) ''Failed to update cloud document''),
                          isLoading := False\<rparr>)
         | Inl err \<Rightarrow>
             Inr (network_failure ''Network error: Unable to update cloud document'',
                  s1\<lparr>sync_error := Some ''Network error: Unable to update cloud document'',
                     isLoading := False\<rparr>))"

text \<open>The five operations, and what it means that the remote call failed.\<close>

datatype sync_operation =
    SaveToCloud
  | LoadFromCloud
  | ListCloudDocuments
  | DeleteFromCloud docid
  | UpdateInCloud

fun run_sync ::
  "sync_operation \<Rightarrow> error + api_response \<Rightarrow> string \<Rightarrow> sync_state
     \<Rightarrow> error + api_response \<times> sync_state" where
  "run_sync SaveToCloud = saveToCloud"
| "run_sync LoadFromCloud = loadFromCloud"
| "run_sync ListCloudDocuments = listCloudDocuments"
| "run_sync (DeleteFromCloud documentId) = deleteFromCloud documentId"
| "run_sync UpdateInCloud = updateInCloud"

fun remote_failure :: "error + api_response \<Rightarrow> bool" where
  "remote_failure (Inl err) = True"
| "remote_failure (Inr result) = (\<not> success result)"

text \<open>A state with two cached documents, reached while another operation is in flight.\<close>

definition busy_state :: sync_state where
  "busy_state =
     \<lparr>isLoading = True, sync_error = None,
      cloudDocuments = Arr [Obj [(''id'', Num 3), (''title'', Str ''Notes'')],
                            Obj [(''id'', Num 7), (''title'', Str ''Draft'')]],
      lastSyncTime = Some ''2026-11-02T09:00:00.000Z''\<rparr>"

definition list_failed :: api_response where
  "list_failed =
     \<lparr>success = False, data = None, error = Some ''All API endpoints are unavailable'',
      message = ''Failed to retrieve documents from API''\<rparr>"

section \<open>Properties of the renderer\<close>

lemma typeof_string_iff: "typeof v = ''string'' \<longleftrightarrow> (\<exists>s. v = Str s)"
  by (cases v) simp_all

lemma parseMarkdown_returns: "\<exists>html. parseMarkdown marked sanitize v = Inr html"
  by (simp add: parseMarkdown_def try_catch_def and_then_def split: sum.splits)

text \<open>
  Claim C2. \<open>parseMarkdown\<close> never throws: on every input it returns a string. The empty
  string and every non-string input give the empty string; when \<open>marked.parse\<close> throws
  the result is the fixed fragment
  \<open><p>Error parsing markdown content.</p>\<close>.
\<close>

theorem parseMarkdown_total:
  "(\<exists>html. parseMarkdown marked sanitize v = Inr html)
   \<and> parseMarkdown marked sanitize (Str '''') = Inr ''''
   \<and> (typeof v \<noteq> ''string'' \<longrightarrow> parseMarkdown marked sanitize v = Inr '''')
   \<and> (s \<noteq> [] \<and> marked (Str s) = Inl e \<longrightarrow>
        parseMarkdown marked sanitize (Str s) = Inr ''<p>Error parsing markdown content.</p>'')"
  using parseMarkdown_returns [of marked sanitize v]
  by (simp add: parseMarkdown_def try_catch_def and_then_def parse_error_html_def)

theorem parseMarkdown_total_witness:
  "typeof (Num 7) \<noteq> ''string''
   \<and> parseMarkdown throwing_marked demo_sanitize (Num 7) = Inr []
   \<and> ''# Hi'' \<noteq> []
   \<and> throwing_marked (Str ''# Hi'') = Inl (Error ''marked(): input could not be parsed'')
   \<and> parseMarkdown throwing_marked demo_sanitize (Str ''# Hi'')
       = Inr ''<p>Error parsing markdown content.</p>''"
  using parseMarkdown_total [of throwing_marked demo_sanitize "Num 7" "''# Hi''"
      "Error ''marked(): input could not be parsed''"]
  by (simp add: throwing_marked_def)

text \<open>The sanitizer is inside the same \<open>try\<close>: when it throws, the fallback is returned too.\<close>

lemma parseMarkdown_sanitizer_throws:
  "s \<noteq> [] \<Longrightarrow> marked (Str s) = Inr raw \<Longrightarrow> sanitize raw purifyConfig = Inl e \<Longrightarrow>
     parseMarkdown marked sanitize (Str s) = Inr parse_error_html"
  by (simp add: parseMarkdown_def try_catch_def and_then_def)

text \<open>Every other result is what the sanitizer returned under \<open>purifyConfig\<close>.\<close>

lemma parseMarkdown_sanitized:
  "s \<noteq> [] \<Longrightarrow> marked (Str s) = Inr raw \<Longrightarrow> sanitize raw purifyConfig = Inr h \<Longrightarrow>
     parseMarkdown marked sanitize (Str s) = Inr h"
  by (simp add: parseMarkdown_def try_catch_def and_then_def)

section \<open>Properties of the debounced render scheduler\<close>
















section \<open>Properties of the throttled autosave\<close>

lemma autosave_inv_iff:
  "autosave_inv h \<longleftrightarrow>
     (0 < next_id (as_timers h)
      \<and> \<not> isFirstRenderRef h
      \<and> as_deps h \<noteq> None
      \<and> (\<forall>i. timeoutRef h = Some i \<longrightarrow> 0 < i \<and> i < next_id (as_timers h))
      \<and> length (pending (as_timers h)) \<le> 1
      \<and> (\<forall>t \<in> set (pending (as_timers h)).
            timeoutRef h = Some (tid t) \<and> as_cleanup h \<and> current_value h = Some (task t)))"
  by (auto simp add: autosave_inv_def split: option.splits)

lemma inv_mount: "pending w = [] \<Longrightarrow> 0 < next_id w \<Longrightarrow> autosave_inv (useThrottledAutosave_mount v f opts w)"
  by (simp add: useThrottledAutosave_mount_def run_effects_def autosave_effect_def autosave_inv_iff)

lemma inv_force: "autosave_inv h \<Longrightarrow> autosave_inv (forceSave v e h)"
  by (cases "timeoutRef h")
     (auto simp add: forceSave_def autosave_inv_iff clearTimeout_def current_value_def Let_def)

lemma pending_cases: "length xs \<le> 1 \<Longrightarrow> xs = [] \<or> (\<exists>x. xs = [x])"
  by (cases xs) (auto simp add: length_Suc_conv)

lemma inv_pending: "autosave_inv h \<Longrightarrow> pending (as_timers h) = [] \<or> (\<exists>t. pending (as_timers h) = [t])"
  by (simp add: autosave_inv_iff pending_cases)

lemma as_advance_idle:
  "pending (as_timers h) = [] \<Longrightarrow>
   as_advance T h = h\<lparr>as_timers := (as_timers h)\<lparr>clock := max (clock (as_timers h)) T\<rparr>\<rparr>"
  by (simp add: as_advance_def due_now_def elapse_def)

lemma as_advance_early:
  "pending (as_timers h) = [t] \<Longrightarrow> T < due t \<Longrightarrow>
   as_advance T h = h\<lparr>as_timers := (as_timers h)\<lparr>clock := max (clock (as_timers h)) T\<rparr>\<rparr>"
  by (simp add: as_advance_def due_now_def elapse_def)

lemma as_advance_fire:
  "pending (as_timers h) = [t] \<Longrightarrow> due t \<le> T \<Longrightarrow>
   as_advance T h = run_save t (h\<lparr>as_timers := (as_timers h)\<lparr>clock := max (clock (as_timers h)) T, pending := []\<rparr>\<rparr>)"
  by (simp add: as_advance_def due_now_def elapse_def)

lemma inv_advance: "autosave_inv h \<Longrightarrow> autosave_inv (as_advance T h)"
proof -
  assume i: "autosave_inv h"
  from inv_pending [OF i] show ?thesis
  proof
    assume "pending (as_timers h) = []"
    with i show ?thesis by (simp add: as_advance_idle autosave_inv_iff current_value_def)
  next
    assume "\<exists>t. pending (as_timers h) = [t]"
    then obtain t where t: "pending (as_timers h) = [t]" ..
    show ?thesis
    proof (cases "due t \<le> T")
      case True
      with i t show ?thesis
        by (simp add: as_advance_fire autosave_inv_iff current_value_def run_save_def)
    next
      case False
      then have "T < due t" by simp
      with i t show ?thesis
        by (simp add: as_advance_early autosave_inv_iff current_value_def)
    qed
  qed
qed

lemma inv_render: "autosave_inv h \<Longrightarrow> autosave_inv (useThrottledAutosave v f opts h)"
proof -
  assume i: "autosave_inv h"
  from inv_pending [OF i] show ?thesis
  proof
    assume "pending (as_timers h) = []"
    with i show ?thesis
      by (cases "timeoutRef h")
         (auto simp add: useThrottledAutosave_def run_effects_def autosave_effect_def autosave_cleanup_def
          throttledSave_def setTimeout_def clearTimeout_def autosave_inv_iff current_value_def Let_def)
  next
    assume "\<exists>t. pending (as_timers h) = [t]"
    then obtain t where t: "pending (as_timers h) = [t]" ..
    with i show ?thesis
      by (auto simp add: useThrottledAutosave_def run_effects_def autosave_effect_def autosave_cleanup_def
          throttledSave_def setTimeout_def clearTimeout_def autosave_inv_iff current_value_def Let_def)
  qed
qed

lemma reachable_inv: "autosave_reachable h \<Longrightarrow> autosave_inv h"
  by (induction rule: autosave_reachable.induct)
     (simp_all add: inv_mount inv_render inv_advance inv_force)

lemma saved_idle: "pending (as_timers h) = [] \<Longrightarrow> saved (as_advance T h) = saved h"
  by (simp add: as_advance_idle)

lemma saved_skip:
  "length (pending (as_timers h)) \<le> 1 \<Longrightarrow> \<forall>t \<in> set (pending (as_timers h)). task t = lastSavedRef h \<Longrightarrow>
   saved (as_advance T h) = saved h"
proof -
  assume l: "length (pending (as_timers h)) \<le> 1"
    and e: "\<forall>t \<in> set (pending (as_timers h)). task t = lastSavedRef h"
  from pending_cases [OF l] show ?thesis
  proof
    assume "pending (as_timers h) = []"
    then show ?thesis by (rule saved_idle)
  next
    assume "\<exists>t. pending (as_timers h) = [t]"
    then obtain t where t: "pending (as_timers h) = [t]" ..
    with e have "task t = lastSavedRef h" by simp
    with t show ?thesis
      by (cases "due t \<le> T") (simp_all add: as_advance_fire as_advance_early run_save_def)
  qed
qed

lemma mount_spec:
  "pending w = [] \<Longrightarrow>
   lastSavedRef (useThrottledAutosave_mount v f opts w) = v
   \<and> saved (useThrottledAutosave_mount v f opts w) = []
   \<and> pending (as_timers (useThrottledAutosave_mount v f opts w)) = []
   \<and> saved (as_advance T (useThrottledAutosave_mount v f opts w)) = []"
proof -
  assume w: "pending w = []"
  have p: "pending (as_timers (useThrottledAutosave_mount v f opts w)) = []"
    using w by (simp add: useThrottledAutosave_mount_def run_effects_def autosave_effect_def)
  have s: "saved (useThrottledAutosave_mount v f opts w) = []"
    by (simp add: useThrottledAutosave_mount_def run_effects_def autosave_effect_def)
  have l: "lastSavedRef (useThrottledAutosave_mount v f opts w) = v"
    by (simp add: useThrottledAutosave_mount_def run_effects_def autosave_effect_def)
  from saved_idle [OF p, of T] s l p show ?thesis by simp
qed

lemma fire_spec:
  "autosave_inv h \<Longrightarrow> pending (as_timers h) = [t] \<Longrightarrow> due t \<le> T \<Longrightarrow>
   current_value h = Some (task t)
   \<and> saved (as_advance T h)
       = (if task t \<noteq> lastSavedRef h then saved h @ [(saveFunctionRef h, task t)] else saved h)
   \<and> lastSavedRef (as_advance T h) = task t
   \<and> pending (as_timers (as_advance T h)) = []"
  by (simp add: as_advance_fire run_save_def autosave_inv_iff)

lemma render_tasks:
  "autosave_inv h \<Longrightarrow>
   \<forall>t \<in> set (pending (as_timers (useThrottledAutosave v f opts h))). task t = v"
proof -
  assume i: "autosave_inv h"
  from inv_pending [OF i] show ?thesis
  proof
    assume "pending (as_timers h) = []"
    with i show ?thesis
      by (auto simp add: useThrottledAutosave_def run_effects_def autosave_effect_def autosave_cleanup_def
          throttledSave_def setTimeout_def clearTimeout_def autosave_inv_iff current_value_def Let_def)
  next
    assume "\<exists>t. pending (as_timers h) = [t]"
    then obtain t where t: "pending (as_timers h) = [t]" ..
    with i show ?thesis
      by (auto simp add: useThrottledAutosave_def run_effects_def autosave_effect_def autosave_cleanup_def
          throttledSave_def setTimeout_def clearTimeout_def autosave_inv_iff current_value_def Let_def)
  qed
qed

lemma render_frame:
  "\<not> isFirstRenderRef h \<Longrightarrow>
   lastSavedRef (useThrottledAutosave v f opts h) = lastSavedRef h
   \<and> saved (useThrottledAutosave v f opts h) = saved h"
  by (simp add: useThrottledAutosave_def run_effects_def autosave_effect_def autosave_cleanup_def
          throttledSave_def setTimeout_def Let_def)

lemma render_due:
  "autosave_inv h \<Longrightarrow> pending (as_timers h) = [] \<Longrightarrow>
   \<forall>t \<in> set (pending (as_timers (useThrottledAutosave v f opts h))).
      due t = clock (as_timers h) + delay_of opts"
  by (auto simp add: useThrottledAutosave_def run_effects_def autosave_effect_def autosave_cleanup_def
          throttledSave_def setTimeout_def clearTimeout_def autosave_inv_iff Let_def)

lemma revert_skips:
  assumes i: "autosave_inv g" and p: "pending (as_timers g) = []"
    and t: "t2 < t1 + delay_of opts1"
  shows "saved (as_advance T
           (useThrottledAutosave (lastSavedRef g) f2 opts2
             (as_advance t2 (useThrottledAutosave v1 f1 opts1 (as_advance t1 g))))) = saved g"
proof -
  let ?ga = "as_advance t1 g"
  let ?g1 = "useThrottledAutosave v1 f1 opts1 ?ga"
  let ?gb = "as_advance t2 ?g1"
  let ?g2 = "useThrottledAutosave (lastSavedRef g) f2 opts2 ?gb"
  have ga: "?ga = g\<lparr>as_timers := (as_timers g)\<lparr>clock := max (clock (as_timers g)) t1\<rparr>\<rparr>"
    using p by (rule as_advance_idle)
  have ia: "autosave_inv ?ga" using i by (rule inv_advance)
  have pa: "pending (as_timers ?ga) = []" using p by (simp add: ga)
  have i1: "autosave_inv ?g1" using ia by (rule inv_render)
  have nf: "\<not> isFirstRenderRef ?ga" using ia by (simp add: autosave_inv_iff)
  have f1: "lastSavedRef ?g1 = lastSavedRef g" "saved ?g1 = saved g"
    using render_frame [OF nf, of v1 f1 opts1] by (simp_all add: ga)
  have d1: "\<forall>t \<in> set (pending (as_timers ?g1)). t2 < due t"
    using render_due [OF ia pa, of v1 f1 opts1] t by (auto simp add: ga)
  have gb: "?gb = ?g1\<lparr>as_timers := (as_timers ?g1)\<lparr>clock := max (clock (as_timers ?g1)) t2\<rparr>\<rparr>"
    using inv_pending [OF i1] d1 by (auto simp add: as_advance_idle as_advance_early)
  have ib: "autosave_inv ?gb" using i1 by (rule inv_advance)
  have nfb: "\<not> isFirstRenderRef ?gb" using ib by (simp add: autosave_inv_iff)
  have fb: "lastSavedRef ?gb = lastSavedRef g" "saved ?gb = saved g"
    using f1 by (simp_all add: gb)
  have f2: "lastSavedRef ?g2 = lastSavedRef g" "saved ?g2 = saved g"
    using render_frame [OF nfb, of "lastSavedRef g" f2 opts2] fb by simp_all
  have i2: "autosave_inv ?g2" using ib by (rule inv_render)
  have l2: "length (pending (as_timers ?g2)) \<le> 1" using i2 by (simp add: autosave_inv_iff)
  have t2: "\<forall>t \<in> set (pending (as_timers ?g2)). task t = lastSavedRef ?g2"
    using render_tasks [OF ib, of "lastSavedRef g" f2 opts2] f2 by simp
  from saved_skip [OF l2 t2, of T] f2 show ?thesis by simp
qed

text \<open>
  Claim C4. On mount the first value is recorded in \<open>lastSavedRef\<close>, no timer is armed and
  the save callback is not called, however long one waits. In every later state, when
  the armed timer elapses, its value is the value of the latest render, and the save
  callback is called with it if and only if it differs from \<open>lastSavedRef\<close>; afterwards
  \<open>lastSavedRef\<close> is that value. In particular, when the value is changed and then set
  back to the last saved one before the timer fires, the callback is never called.
  The later states are those that satisfy \<open>autosave_inv\<close>, as every reachable state does.
\<close>

theorem autosave_fire_iff_changed:
  assumes "pending w = []"
    and "autosave_inv h" and "pending (as_timers h) = [t]" and "due t \<le> T"
    and "autosave_inv g" and "pending (as_timers g) = []" and "t2 < t1 + delay_of opts1"
  shows "lastSavedRef (useThrottledAutosave_mount v f opts w) = v
     \<and> saved (useThrottledAutosave_mount v f opts w) = []
     \<and> pending (as_timers (useThrottledAutosave_mount v f opts w)) = []
     \<and> (\<forall>T'. saved (as_advance T' (useThrottledAutosave_mount v f opts w)) = [])
     \<and> current_value h = Some (task t)
     \<and> saved (as_advance T h)
         = (if task t \<noteq> lastSavedRef h then saved h @ [(saveFunctionRef h, task t)] else saved h)
     \<and> lastSavedRef (as_advance T h) = task t
     \<and> (\<forall>T'. saved (as_advance T'
           (useThrottledAutosave (lastSavedRef g) f2 opts2
             (as_advance t2 (useThrottledAutosave v1 f1 opts1 (as_advance t1 g))))) = saved g)"
proof -
  have m: "lastSavedRef (useThrottledAutosave_mount v f opts w) = v
     \<and> saved (useThrottledAutosave_mount v f opts w) = []
     \<and> pending (as_timers (useThrottledAutosave_mount v f opts w)) = []"
    using mount_spec [OF assms(1), of v f opts] by simp
  have n: "\<forall>T'. saved (as_advance T' (useThrottledAutosave_mount v f opts w)) = []"
    using mount_spec [OF assms(1), of v f opts] by simp
  have k: "current_value h = Some (task t)
     \<and> saved (as_advance T h)
         = (if task t \<noteq> lastSavedRef h then saved h @ [(saveFunctionRef h, task t)] else saved h)
     \<and> lastSavedRef (as_advance T h) = task t"
    using fire_spec [OF assms(2,3,4)] by simp
  have r: "\<forall>T'. saved (as_advance T'
           (useThrottledAutosave (lastSavedRef g) f2 opts2
             (as_advance t2 (useThrottledAutosave v1 f1 opts1 (as_advance t1 g))))) = saved g"
    using revert_skips [OF assms(5,6,7)] by simp
  from m n k r show ?thesis by simp
qed

lemma demo_typed_eq:
  "demo_typed = \<lparr>timeoutRef = Some 1, lastSavedRef = ''a'', isFirstRenderRef = False,
      saveFunctionRef = ''autosaveToStorage'', as_deps = Some (''ab'', 2000, True), as_cleanup = True,
      as_timers = \<lparr>clock = 100, next_id = 2, pending = [\<lparr>tid = 1, due = 2100, task = ''ab''\<rparr>]\<rparr>,
      saved = []\<rparr>"
  by (simp add: demo_typed_def demo_options_def demo_timers_def useThrottledAutosave_mount_def
      useThrottledAutosave_def run_effects_def autosave_effect_def autosave_cleanup_def throttledSave_def
      setTimeout_def clearTimeout_def as_advance_def due_now_def elapse_def delay_of_def enabled_of_def)

lemma demo_mount_eq:
  "useThrottledAutosave_mount ''a'' ''autosaveToStorage'' demo_options demo_timers
    = \<lparr>timeoutRef = None, lastSavedRef = ''a'', isFirstRenderRef = False,
      saveFunctionRef = ''autosaveToStorage'', as_deps = Some (''a'', 2000, True), as_cleanup = False,
      as_timers = \<lparr>clock = 0, next_id = 1, pending = []\<rparr>, saved = []\<rparr>"
  by (simp add: demo_options_def demo_timers_def useThrottledAutosave_mount_def
      run_effects_def autosave_effect_def delay_of_def enabled_of_def)

lemma demo_typed_inv: "autosave_inv demo_typed"
  by (simp add: demo_typed_eq autosave_inv_iff current_value_def)

theorem autosave_fire_iff_changed_witness:
  "pending demo_timers = []
   \<and> autosave_inv demo_typed
   \<and> pending (as_timers demo_typed) = [\<lparr>tid = 1, due = 2100, task = ''ab''\<rparr>]
   \<and> saved (as_advance 5000 (useThrottledAutosave_mount ''a'' ''autosaveToStorage'' demo_options demo_timers)) = []
   \<and> saved (as_advance 2100 demo_typed) = [(''autosaveToStorage'', ''ab'')]
   \<and> lastSavedRef (as_advance 2100 demo_typed) = ''ab''
   \<and> saved (as_advance 5000
        (useThrottledAutosave ''a'' ''autosaveToStorage'' demo_options
          (as_advance 200 (useThrottledAutosave ''ab'' ''autosaveToStorage'' demo_options
            (as_advance 100 (useThrottledAutosave_mount ''a'' ''autosaveToStorage'' demo_options demo_timers)))))) = []"
proof -
  let ?g = "useThrottledAutosave_mount ''a'' ''autosaveToStorage'' demo_options demo_timers"
  let ?t = "\<lparr>tid = 1, due = 2100, task = ''ab''\<rparr> :: string timer"
  have w: "pending demo_timers = []" by (simp add: demo_timers_def)
  have p: "pending (as_timers demo_typed) = [?t]" by (simp add: demo_typed_eq)
  have d: "due ?t \<le> 2100" by simp
  have ig: "autosave_inv ?g" by (rule inv_mount) (simp_all add: demo_timers_def)
  have pg: "pending (as_timers ?g) = []" by (simp add: demo_mount_eq)
  have lg: "lastSavedRef ?g = ''a''" "saved ?g = []" by (simp_all add: demo_mount_eq)
  have t: "(200::nat) < 100 + delay_of demo_options" by (simp add: delay_of_def demo_options_def)
  have ls: "lastSavedRef demo_typed = ''a''" "saved demo_typed = []" "saveFunctionRef demo_typed = ''autosaveToStorage''"
    by (simp_all add: demo_typed_eq)
  from autosave_fire_iff_changed [OF w demo_typed_inv p d ig pg t,
      of "''a''" "''autosaveToStorage''" demo_options "''autosaveToStorage''" demo_options "''ab''" "''autosaveToStorage''"]
  show ?thesis using w demo_typed_inv p lg ls by simp
qed

lemma forceSave_enabled:
  "autosave_inv h \<Longrightarrow>
   pending (as_timers (forceSave v True h)) = []
   \<and> timeoutRef (forceSave v True h) = None
   \<and> saved (forceSave v True h) = saved h @ [(saveFunctionRef h, v)]
   \<and> lastSavedRef (forceSave v True h) = v"
  by (cases "timeoutRef h")
     (auto simp add: forceSave_def autosave_inv_iff clearTimeout_def Let_def)

text \<open>
  Claim C5. With \<open>enabled\<close> true, \<open>forceSave\<close> leaves no timer pending, calls the save
  callback exactly once with the current value, whether or not it equals the last saved
  one, and sets \<open>lastSavedRef\<close> to it; the cancelled timer never adds a second call.
  With \<open>enabled\<close> false, \<open>forceSave\<close> changes nothing. The states are those that satisfy
  \<open>autosave_inv\<close>, as every reachable state does.
\<close>

theorem forceSave_unconditional:
  assumes "autosave_inv h"
  shows "pending (as_timers (forceSave v True h)) = []
     \<and> saved (forceSave v True h) = saved h @ [(saveFunctionRef h, v)]
     \<and> lastSavedRef (forceSave v True h) = v
     \<and> (\<forall>T. saved (as_advance T (forceSave v True h)) = saved h @ [(saveFunctionRef h, v)])
     \<and> forceSave v False h = h"
proof -
  have e: "pending (as_timers (forceSave v True h)) = []
     \<and> saved (forceSave v True h) = saved h @ [(saveFunctionRef h, v)]
     \<and> lastSavedRef (forceSave v True h) = v"
    using forceSave_enabled [OF assms, of v] by simp
  then have p: "pending (as_timers (forceSave v True h)) = []" by simp
  have l: "\<forall>T. saved (as_advance T (forceSave v True h)) = saved h @ [(saveFunctionRef h, v)]"
    using saved_idle [OF p] e by simp
  have d: "forceSave v False h = h" by (simp add: forceSave_def)
  from e l d show ?thesis by simp
qed

theorem forceSave_unconditional_witness:
  "autosave_inv demo_typed
   \<and> pending (as_timers demo_typed) \<noteq> []
   \<and> pending (as_timers (forceSave ''ab'' True demo_typed)) = []
   \<and> saved (forceSave ''ab'' True demo_typed) = [(''autosaveToStorage'', ''ab'')]
   \<and> saved (forceSave ''a'' True demo_typed) = [(''autosaveToStorage'', ''a'')]
   \<and> lastSavedRef demo_typed = ''a''
   \<and> saved (as_advance 5000 (forceSave ''ab'' True demo_typed)) = [(''autosaveToStorage'', ''ab'')]
   \<and> forceSave ''ab'' False demo_typed = demo_typed"
proof -
  have p: "pending (as_timers demo_typed) \<noteq> []" "lastSavedRef demo_typed = ''a''"
    "saved demo_typed = []" "saveFunctionRef demo_typed = ''autosaveToStorage''"
    by (simp_all add: demo_typed_eq)
  from forceSave_unconditional [OF demo_typed_inv, of "''ab''"]
    forceSave_unconditional [OF demo_typed_inv, of "''a''"]
  show ?thesis using p demo_typed_inv by simp
qed

section \<open>Properties of the remote document client\<close>

lemma apiRequest_fails_iff:
  "(\<exists>e. fst (apiRequest net url options log) = Inl e) \<longleftrightarrow> attempt_failed net (defaultOptions url options)"
  by (auto simp add: apiRequest_def attempt_failed_def try_catch_def split: fetch_outcome.splits sum.splits)

lemma apiRequest_log: "snd (apiRequest net url options log) = log @ [defaultOptions url options]"
  by (simp add: apiRequest_def)

lemma fallback_log:
  "snd (apiRequestWithFallback net endpoint options log) =
     log @ defaultOptions (baseUrl (primary API_CONFIG) @ endpoint) options
         # (if attempt_failed net (defaultOptions (baseUrl (primary API_CONFIG) @ endpoint) options)
            then [defaultOptions (baseUrl (fallback API_CONFIG) @ endpoint) options] else [])"
  using apiRequest_fails_iff [of net "baseUrl (primary API_CONFIG) @ endpoint" options log]
    apiRequest_log [of net "baseUrl (primary API_CONFIG) @ endpoint" options log]
    apiRequest_log [of net "baseUrl (fallback API_CONFIG) @ endpoint" options
       "log @ [defaultOptions (baseUrl (primary API_CONFIG) @ endpoint) options]"]
  by (auto simp add: apiRequestWithFallback_def split: prod.splits sum.splits)



lemmas client_defs =
  saveMarkdownToAPI_def loadMarkdownFromAPI_def listMarkdownDocuments_def
  deleteMarkdownFromAPI_def updateMarkdownInAPI_def split_def

lemma perform_log:
  "snd (perform net now opn) =
     primary_request now opn
       # (if attempt_failed net (primary_request now opn) then [fallback_request now opn] else [])"
  by (cases opn)
     (simp_all add: client_defs primary_request_def fallback_request_def fallback_log)






lemma show_int_7: "show_int 7 = ''7''"
  by (simp add: show_int_def show_nat.simps)





section \<open>Properties of the list operation and of the payloads\<close>

lemma get_prop_fails_all: "get_prop d k = Inr v \<Longrightarrow> \<exists>w. get_prop d k' = Inr w"
  by (cases d) simp_all

lemma document_preview_ok:
  "previewable d \<Longrightarrow> \<exists>p. document_preview now d = Inr p \<and> preview_of d p"
proof -
  assume pv: "previewable d"
  then obtain b where b: "get_prop d ''body'' = Inr b" and t: "truthy b \<longrightarrow> typeof b = ''string''"
    by (auto simp add: previewable_def split: sum.splits)
  from get_prop_fails_all [OF b] obtain vi where vi: "get_prop d ''id'' = Inr vi" by blast
  from get_prop_fails_all [OF b] obtain vt where vt: "get_prop d ''title'' = Inr vt" by blast
  from get_prop_fails_all [OF b] obtain vc where vc: "get_prop d ''createdAt'' = Inr vc" by blast
  from get_prop_fails_all [OF b] obtain vy where vy: "get_prop d ''type'' = Inr vy" by blast
  show ?thesis
  proof (cases "truthy b")
    case True
    with t obtain s where s: "b = Str s" by (auto simp add: typeof_string_iff)
    with True have ne: "s \<noteq> []" by simp
    show ?thesis
      using b vi vt vc vy s ne
      by (simp add: document_preview_def and_then_def preview_of_def body_of_def)
  next
    case False
    then have "(case b of Str s \<Rightarrow> if s = [] then [] else take 100 s @ ''...'' | _ \<Rightarrow> []) = []"
      by (cases b) simp_all
    with False show ?thesis
      using b vi vt vc vy
      by (simp add: document_preview_def and_then_def preview_of_def body_of_def)
  qed
qed

lemma map_throwing_all:
  "\<forall>d \<in> set ds. \<exists>p. f d = Inr p \<and> P d p \<Longrightarrow>
   \<exists>ps. map_throwing f ds = Inr ps \<and> list_all2 P ds ps"
proof (induction ds)
  case Nil
  then show ?case by simp
next
  case (Cons d ds)
  then obtain p where p: "f d = Inr p" "P d p" by auto
  from Cons obtain ps where ps: "map_throwing f ds = Inr ps" "list_all2 P ds ps" by auto
  from p ps show ?case by (simp add: and_then_def)
qed

text \<open>
  Claim C7, amended. Whenever a request of the list operation succeeded with JSON
  \<open>result\<close>, the documents are \<open>result\<close> itself when it is an array and the one-element
  sequence \<open>[result]\<close> otherwise (a single object in particular). If every document is
  previewable, the operation succeeds and returns one preview per document, in order:
  for a document whose body is a non-empty string the preview text is the first 100
  characters of the body followed by \<open>...\<close>; for a document whose body is missing or
  empty the preview text is the empty string.
\<close>

theorem list_normalizes_and_previews:
  assumes "fst (apiRequestWithFallback net (op_endpoint (List limit)) no_options []) = Inr result"
    and "\<forall>d \<in> set (documents_of result). previewable d"
  shows "documents_of (Arr ds) = ds
     \<and> documents_of (Obj kvs) = [Obj kvs]
     \<and> (\<exists>ps. fst (listMarkdownDocuments net now limit []) =
               Inr \<lparr>success = True, data = Some (Arr ps), error = None,
                    message = ''Documents retrieved successfully''\<rparr>
             \<and> list_all2 preview_of (documents_of result) ps)
     \<and> (body_of d = Str s \<and> s \<noteq> [] \<and> preview_of d p
          \<longrightarrow> get_prop p ''preview'' = Inr (Str (take 100 s @ ''...'')))
     \<and> (\<not> truthy (body_of d) \<and> preview_of d p \<longrightarrow> get_prop p ''preview'' = Inr (Str []))"
proof -
  have "\<forall>d \<in> set (documents_of result). \<exists>p. document_preview now d = Inr p \<and> preview_of d p"
    using assms(2) document_preview_ok by blast
  from map_throwing_all [OF this] obtain ps
    where ps: "map_throwing (document_preview now) (documents_of result) = Inr ps"
      and rel: "list_all2 preview_of (documents_of result) ps" by blast
  have r: "fst (listMarkdownDocuments net now limit []) =
               Inr \<lparr>success = True, data = Some (Arr ps), error = None,
                    message = ''Documents retrieved successfully''\<rparr>"
    using assms(1) ps
    by (simp add: listMarkdownDocuments_def split_def try_catch_def and_then_def succeeded_def)
  have e: "\<exists>ps. fst (listMarkdownDocuments net now limit []) =
               Inr \<lparr>success = True, data = Some (Arr ps), error = None,
                    message = ''Documents retrieved successfully''\<rparr>
             \<and> list_all2 preview_of (documents_of result) ps"
    by (rule exI [of _ ps]) (intro conjI r rel)
  have a: "body_of d = Str s \<and> s \<noteq> [] \<and> preview_of d p
          \<longrightarrow> get_prop p ''preview'' = Inr (Str (take 100 s @ ''...''))"
    by (simp add: preview_of_def)
  have "\<not> truthy (body_of d) \<Longrightarrow>
      (case body_of d of Str s \<Rightarrow> if s = [] then [] else take 100 s @ ''...'' | _ \<Rightarrow> []) = []"
    by (cases "body_of d") simp_all
  then have b: "\<not> truthy (body_of d) \<and> preview_of d p \<longrightarrow> get_prop p ''preview'' = Inr (Str [])"
    by (simp add: preview_of_def)
  have n: "documents_of (Arr ds) = ds" "documents_of (Obj kvs) = [Obj kvs]" by simp_all
  show ?thesis by (intro conjI n e a b)
qed

lemma demo_list_endpoint: "op_endpoint (List (Some 7)) = ''/posts?_limit=7''"
  by (simp add: API_CONFIG_def show_int_7)

lemma demo_list_result:
  "fst (apiRequestWithFallback net_single (op_endpoint (List (Some 7))) no_options []) = Inr long_document"
  by (simp add: show_int_7 apiRequestWithFallback_def apiRequest_def API_CONFIG_def
      defaultOptions_def no_options_def net_single_def ok_def try_catch_def)

theorem list_normalizes_and_previews_witness:
  "fst (apiRequestWithFallback net_single (op_endpoint (List (Some 7))) no_options []) = Inr long_document
   \<and> previewable long_document
   \<and> documents_of long_document = [long_document]
   \<and> body_of long_document = Str (replicate 120 (CHR ''x''))
   \<and> (\<exists>p. fst (listMarkdownDocuments net_single ''2026-11-03T00:00:00.000Z'' (Some 7) []) =
               Inr \<lparr>success = True, data = Some (Arr [p]), error = None,
                    message = ''Documents retrieved successfully''\<rparr>
          \<and> get_prop p ''preview'' = Inr (Str (replicate 100 (CHR ''x'') @ ''...'')))"
proof -
  let ?now = "''2026-11-03T00:00:00.000Z''"
  have d: "documents_of long_document = [long_document]" by (simp add: long_document_def)
  have b: "body_of long_document = Str (replicate 120 (CHR ''x''))"
    by (simp add: long_document_def body_of_def)
  have pv: "\<forall>d \<in> set (documents_of long_document). previewable d"
    by (simp add: long_document_def previewable_def)
  from list_normalizes_and_previews [OF demo_list_result pv, of _ _ ?now long_document
      "replicate 120 (CHR ''x'')"]
  obtain ps where r: "fst (listMarkdownDocuments net_single ?now (Some 7) []) =
               Inr \<lparr>success = True, data = Some (Arr ps), error = None,
                    message = ''Documents retrieved successfully''\<rparr>"
    and rel: "list_all2 preview_of (documents_of long_document) ps"
    and t: "\<And>p. preview_of long_document p \<Longrightarrow>
              get_prop p ''preview'' = Inr (Str (take 100 (replicate 120 (CHR ''x'')) @ ''...''))"
    using b by auto
  from rel d obtain p where p: "ps = [p]" "preview_of long_document p"
    by (auto simp add: list_all2_Cons1)
  from t [OF p(2)] have "get_prop p ''preview'' = Inr (Str (replicate 100 (CHR ''x'') @ ''...''))"
    by simp
  moreover have "previewable long_document" by (simp add: long_document_def previewable_def)
  ultimately show ?thesis using r p(1) demo_list_result d b by blast
qed

text \<open>
  Claim C7 as stated fails on a document whose content is empty: its preview is the
  empty string, not the first 100 characters of the content followed by the ellipsis.
\<close>

theorem list_preview_counterexample:
  "fst (listMarkdownDocuments net_empty_body ''2026-11-03T00:00:00.000Z'' (Some 7) []) =
     Inr \<lparr>success = True,
          data = Some (Arr [Obj [(''id'', Num 3), (''title'', Str ''Draft''), (''preview'', Str []),
                                 (''createdAt'', Str ''2026-11-03T00:00:00.000Z''),
                                 (''type'', Str ''markdown'')]]),
          error = None, message = ''Documents retrieved successfully''\<rparr>
   \<and> Str [] \<noteq> Str (take 100 [] @ ''...'')"
  by (simp add: listMarkdownDocuments_def apiRequestWithFallback_def apiRequest_def split_def
      net_empty_body_def ok_def try_catch_def and_then_def succeeded_def document_preview_def js_or_def)

lemma save_log_bodies:
  "\<forall>req \<in> set (snd (saveMarkdownToAPI net now title content tags [])).
      req_body req = Some (Obj (save_payload now title content tags))"
  by (simp add: saveMarkdownToAPI_def split_def fallback_log defaultOptions_def)

lemma update_log_bodies:
  "\<forall>req \<in> set (snd (updateMarkdownInAPI net now documentId title content tags [])).
      req_body req = Some (Obj (update_payload now documentId title content tags))"
  by (simp add: updateMarkdownInAPI_def split_def fallback_log defaultOptions_def)

text \<open>
  Claim C10. When the title argument is the empty string, the title of the payload of
  \<open>saveMarkdownToAPI\<close> and of \<open>updateMarkdownInAPI\<close> is \<open>Untitled Document\<close>; for no title is
  it the empty string. An omitted or empty tags argument gives the tags \<open>''\<close>. Every
  request the two operations issue, to either host, carries that payload as its body.
\<close>

theorem untitled_document_default:
  "map_of (save_payload now [] content tags) ''title'' = Some (Str ''Untitled Document'')
   \<and> map_of (update_payload now documentId [] content tags) ''title'' = Some (Str ''Untitled Document'')
   \<and> map_of (save_payload now title content tags) ''title'' \<noteq> Some (Str [])
   \<and> map_of (update_payload now documentId title content tags) ''title'' \<noteq> Some (Str [])
   \<and> map_of (save_payload now title content None) ''tags'' = Some (Str [])
   \<and> map_of (save_payload now title content (Some [])) ''tags'' = Some (Str [])
   \<and> map_of (update_payload now documentId title content None) ''tags'' = Some (Str [])
   \<and> map_of (update_payload now documentId title content (Some [])) ''tags'' = Some (Str [])
   \<and> (\<forall>req \<in> set (snd (saveMarkdownToAPI net now title content tags [])).
         req_body req = Some (Obj (save_payload now title content tags)))
   \<and> (\<forall>req \<in> set (snd (updateMarkdownInAPI net now documentId title content tags [])).
         req_body req = Some (Obj (update_payload now documentId title content tags)))"
proof -
  have a: "map_of (save_payload now [] content tags) ''title'' = Some (Str ''Untitled Document'')"
    "map_of (update_payload now documentId [] content tags) ''title'' = Some (Str ''Untitled Document'')"
    "map_of (save_payload now title content tags) ''title'' \<noteq> Some (Str [])"
    "map_of (update_payload now documentId title content tags) ''title'' \<noteq> Some (Str [])"
    by (simp_all add: save_payload_def update_payload_def js_or_def)
  have b: "map_of (save_payload now title content None) ''tags'' = Some (Str [])"
    "map_of (save_payload now title content (Some [])) ''tags'' = Some (Str [])"
    "map_of (update_payload now documentId title content None) ''tags'' = Some (Str [])"
    "map_of (update_payload now documentId title content (Some [])) ''tags'' = Some (Str [])"
    by (simp_all add: save_payload_def update_payload_def js_or_def)
  show ?thesis by (intro conjI a b save_log_bodies update_log_bodies)
qed

theorem untitled_document_default_witness:
  "length (snd (saveMarkdownToAPI net_down ''2026-11-03T00:00:00.000Z'' [] ''# Hi'' None [])) = 2
   \<and> list_all (\<lambda>req. req_body req =
           Some (Obj [(''title'', Str ''Untitled Document''), (''body'', Str ''# Hi''),
                      (''userId'', Num 1), (''tags'', Str []),
                      (''createdAt'', Str ''2026-11-03T00:00:00.000Z''), (''type'', Str ''markdown'')]))
         (snd (saveMarkdownToAPI net_down ''2026-11-03T00:00:00.000Z'' [] ''# Hi'' None []))
   \<and> length (snd (updateMarkdownInAPI net_down ''2026-11-03T00:00:00.000Z'' (IdNum 7) [] ''# Hi'' None [])) = 2
   \<and> list_all (\<lambda>req. req_body req =
           Some (Obj [(''id'', Num 7), (''title'', Str ''Untitled Document''), (''body'', Str ''# Hi''),
                      (''userId'', Num 1), (''tags'', Str []),
                      (''updatedAt'', Str ''2026-11-03T00:00:00.000Z''), (''type'', Str ''markdown'')]))
         (snd (updateMarkdownInAPI net_down ''2026-11-03T00:00:00.000Z'' (IdNum 7) [] ''# Hi'' None []))"
proof -
  let ?now = "''2026-11-03T00:00:00.000Z''"
  have p: "save_payload ?now [] ''# Hi'' None =
      [(''title'', Str ''Untitled Document''), (''body'', Str ''# Hi''),
       (''userId'', Num 1), (''tags'', Str []),
       (''createdAt'', Str ?now), (''type'', Str ''markdown'')]"
    by (simp add: save_payload_def js_or_def)
  have q: "update_payload ?now (IdNum 7) [] ''# Hi'' None =
      [(''id'', Num 7), (''title'', Str ''Untitled Document''), (''body'', Str ''# Hi''),
       (''userId'', Num 1), (''tags'', Str []),
       (''updatedAt'', Str ?now), (''type'', Str ''markdown'')]"
    by (simp add: update_payload_def js_or_def)
  have f: "attempt_failed net_down (primary_request ?now (Save [] ''# Hi'' None))"
    "attempt_failed net_down (primary_request ?now (Update (IdNum 7) [] ''# Hi'' None))"
    by (simp_all add: primary_request_def defaultOptions_def attempt_failed_def net_down_def ok_def
        API_CONFIG_def show_int_7)
  have n: "length (snd (saveMarkdownToAPI net_down ?now [] ''# Hi'' None [])) = 2"
    "length (snd (updateMarkdownInAPI net_down ?now (IdNum 7) [] ''# Hi'' None [])) = 2"
    using perform_log [of net_down ?now "Save [] ''# Hi'' None"]
      perform_log [of net_down ?now "Update (IdNum 7) [] ''# Hi'' None"] f
    by simp_all
  from untitled_document_default [of ?now "''# Hi''" None "IdNum 7" "[]" net_down]
  show ?thesis using n by (simp add: p q list_all_iff)
qed

section \<open>Properties of the local persistence store\<close>

text \<open>\<open>value instanceof Function ? value(storedValue) : value\<close>\<close>

text \<open>
  \<open>setValue\<close>: the argument is a value (\<open>Inl\<close>) or a function of the previous value
  (\<open>Inr\<close>). \<open>setStoredValue\<close> has taken effect when a later statement of the \<open>try\<close>
  throws, so the handler continues from the state reached.
\<close>

lemma useLocalStorage_returns: "\<exists>s. useLocalStorage h key d st = Inr s"
  by (simp add: useLocalStorage_def try_catch_def and_then_def split: sum.splits)

lemma setValue_returns: "\<exists>s'. setValue h key value s = Inr s'"
  by (simp add: setValue_def Let_def split: sum.splits)

text \<open>
  Claim C8. Neither the read nor the write of the store throws. A read that misses, and
  a read whose stored text fails to parse, give the default value (the parse error is
  logged). A write whose serialisation or \<open>setItem\<close> throws returns normally, logs the
  error, leaves the storage as it was, and has updated the in-memory value.
\<close>

theorem local_storage_never_throws:
  "(\<exists>s0. useLocalStorage h key d st = Inr s0)
   \<and> (window_defined h \<and> getItem h st key = Inr None \<longrightarrow>
        useLocalStorage h key d st = Inr \<lparr>storedValue = d, ls_store = st, console = []\<rparr>)
   \<and> (window_defined h \<and> getItem h st key = Inr (Some text) \<and> text \<noteq> [] \<and> JSON_parse h text = Inl e \<longrightarrow>
        useLocalStorage h key d st =
          Inr \<lparr>storedValue = d, ls_store = st, console = [(reading_error key, e)]\<rparr>)
   \<and> (\<exists>s'. setValue h key value s = Inr s')
   \<and> (window_defined h \<and> valueToStore_of value (storedValue s) = Inr v
        \<and> (JSON_stringify h v = Inl e'
            \<or> (\<exists>t. JSON_stringify h v = Inr t \<and> setItem h (ls_store s) key t = Inl e')) \<longrightarrow>
        setValue h key value s =
          Inr (s\<lparr>storedValue := v, console := console s @ [(setting_error key, e')]\<rparr>))"
proof -
  have w: "window_defined h \<and> valueToStore_of value (storedValue s) = Inr v
        \<and> (JSON_stringify h v = Inl e'
            \<or> (\<exists>t. JSON_stringify h v = Inr t \<and> setItem h (ls_store s) key t = Inl e')) \<longrightarrow>
        setValue h key value s =
          Inr (s\<lparr>storedValue := v, console := console s @ [(setting_error key, e')]\<rparr>)"
    by (auto simp add: setValue_def and_then_def Let_def)
  have r: "window_defined h \<and> getItem h st key = Inr None \<longrightarrow>
        useLocalStorage h key d st = Inr \<lparr>storedValue = d, ls_store = st, console = []\<rparr>"
    "window_defined h \<and> getItem h st key = Inr (Some text) \<and> text \<noteq> [] \<and> JSON_parse h text = Inl e \<longrightarrow>
        useLocalStorage h key d st =
          Inr \<lparr>storedValue = d, ls_store = st, console = [(reading_error key, e)]\<rparr>"
    by (simp_all add: useLocalStorage_def try_catch_def and_then_def)
  show ?thesis
    by (intro conjI useLocalStorage_returns setValue_returns r w)
qed

theorem local_storage_never_throws_witness:
  "useLocalStorage demo_host ''markdown-content'' ''# Welcome'' [] = Inr welcome_state
   \<and> useLocalStorage demo_host ''markdown-content'' ''# Welcome'' [(''markdown-content'', ''{oops'')]
       = Inr \<lparr>storedValue = ''# Welcome'', ls_store = [(''markdown-content'', ''{oops'')],
              console = [(reading_error ''markdown-content'', SyntaxError ''Unexpected token'')]\<rparr>
   \<and> setValue cyclic_host ''markdown-content'' (Inl ''# Hi'') welcome_state
       = Inr \<lparr>storedValue = ''# Hi'', ls_store = [],
              console = [(setting_error ''markdown-content'',
                          TypeError ''Converting circular structure to JSON'')]\<rparr>
   \<and> setValue demo_host ''markdown-content'' (Inr (\<lambda>previous. Inr (previous @ '' to the editor''))) welcome_state
       = Inr \<lparr>storedValue = ''# Welcome to the editor'', ls_store = [],
              console = [(setting_error ''markdown-content'', DOMException ''QuotaExceededError'')]\<rparr>"
proof -
  let ?k = "''markdown-content''"
  have a: "useLocalStorage demo_host ?k ''# Welcome'' [] = Inr welcome_state"
    using local_storage_never_throws [of demo_host ?k "''# Welcome''" "[]"]
    by (simp add: demo_host_def welcome_state_def)
  have b: "useLocalStorage demo_host ?k ''# Welcome'' [(?k, ''{oops'')]
       = Inr \<lparr>storedValue = ''# Welcome'', ls_store = [(?k, ''{oops'')],
              console = [(reading_error ?k, SyntaxError ''Unexpected token'')]\<rparr>"
    using local_storage_never_throws [of demo_host ?k "''# Welcome''" "[(?k, ''{oops'')]" "''{oops''"
        "SyntaxError ''Unexpected token''"]
    by (simp add: demo_host_def)
  have c: "setValue cyclic_host ?k (Inl ''# Hi'') welcome_state
       = Inr \<lparr>storedValue = ''# Hi'', ls_store = [],
              console = [(setting_error ?k, TypeError ''Converting circular structure to JSON'')]\<rparr>"
    using local_storage_never_throws [of cyclic_host ?k _ _ _ _ "Inl ''# Hi''" welcome_state "''# Hi''"
        "TypeError ''Converting circular structure to JSON''"]
    by (simp add: cyclic_host_def demo_host_def welcome_state_def valueToStore_of_def)
  have d: "setValue demo_host ?k (Inr (\<lambda>previous. Inr (previous @ '' to the editor''))) welcome_state
       = Inr \<lparr>storedValue = ''# Welcome to the editor'', ls_store = [],
              console = [(setting_error ?k, DOMException ''QuotaExceededError'')]\<rparr>"
    using local_storage_never_throws [of demo_host ?k _ _ _ _
        "Inr (\<lambda>previous. Inr (previous @ '' to the editor''))" welcome_state "''# Welcome to the editor''"
        "DOMException ''QuotaExceededError''"]
    by (simp add: demo_host_def welcome_state_def valueToStore_of_def)
  from a b c d show ?thesis by simp
qed

section \<open>Properties of the sync orchestrator\<close>

text \<open>
  Claim C9, amended. When the remote call of an orchestrator operation fails (the client
  result has \<open>success = false\<close>, or an exception is caught), the operation returns a
  failed result, \<open>sync_error\<close> holds a non-empty message, \<open>cloudDocuments\<close> and
  \<open>lastSyncTime\<close> are as before the operation, and \<open>isLoading\<close> is false, whatever it was
  before.
\<close>

theorem sync_failure_frame:
  assumes "remote_failure awaited"
  shows "\<exists>result s'. run_sync opn awaited now s = Inr (result, s')
      \<and> \<not> success result
      \<and> (\<exists>m. sync_error s' = Some m \<and> m \<noteq> [])
      \<and> cloudDocuments s' = cloudDocuments s
      \<and> lastSyncTime s' = lastSyncTime s
      \<and> isLoading s' = False"
  using assms
  by (cases opn; cases awaited)
     (simp_all add: saveToCloud_def loadFromCloud_def listCloudDocuments_def deleteFromCloud_def
        updateInCloud_def message_or_def network_failure_def Let_def)

theorem sync_failure_frame_witness:
  "remote_failure (Inr list_failed)
   \<and> remote_failure (Inl (TypeError ''Failed to fetch'') :: error + api_response)
   \<and> listCloudDocuments (Inr list_failed) ''2026-11-03T00:00:00.000Z'' busy_state =
       Inr (list_failed,
            busy_state\<lparr>isLoading := False,
                       sync_error := Some ''Failed to retrieve documents from API''\<rparr>)
   \<and> deleteFromCloud (IdNum 7) (Inl (TypeError ''Failed to fetch'')) ''2026-11-03T00:00:00.000Z'' busy_state =
       Inr (network_failure ''Network error: Unable to delete from cloud'',
            busy_state\<lparr>isLoading := False,
                       sync_error := Some ''Network error: Unable to delete from cloud''\<rparr>)"
proof -
  let ?now = "''2026-11-03T00:00:00.000Z''"
  have a: "remote_failure (Inr list_failed)" by (simp add: list_failed_def)
  have b: "remote_failure (Inl (TypeError ''Failed to fetch'') :: error + api_response)" by simp
  from sync_failure_frame [OF a, of ListCloudDocuments ?now busy_state]
  have c: "listCloudDocuments (Inr list_failed) ?now busy_state =
       Inr (list_failed,
            busy_state\<lparr>isLoading := False,
                       sync_error := Some ''Failed to retrieve documents from API''\<rparr>)"
    by (simp add: listCloudDocuments_def list_failed_def message_or_def busy_state_def)
  from sync_failure_frame [OF b, of "DeleteFromCloud (IdNum 7)" ?now busy_state]
  have d: "deleteFromCloud (IdNum 7) (Inl (TypeError ''Failed to fetch'')) ?now busy_state =
       Inr (network_failure ''Network error: Unable to delete from cloud'',
            busy_state\<lparr>isLoading := False,
                       sync_error := Some ''Network error: Unable to delete from cloud''\<rparr>)"
    by (simp add: deleteFromCloud_def busy_state_def)
  from a b c d show ?thesis by simp
qed

text \<open>
  Claim C9 as stated fails for \<open>isLoading\<close>: a list that fails while another
  operation is in flight finds \<open>isLoading\<close> true and leaves it false.
\<close>

theorem sync_failure_frame_counterexample:
  "isLoading busy_state
   \<and> listCloudDocuments (Inr list_failed) ''2026-11-03T00:00:00.000Z'' busy_state =
       Inr (list_failed,
            \<lparr>isLoading = False, sync_error = Some ''Failed to retrieve documents from API'',
             cloudDocuments = Arr [Obj [(''id'', Num 3), (''title'', Str ''Notes'')],
                                   Obj [(''id'', Num 7), (''title'', Str ''Draft'')]],
             lastSyncTime = Some ''2026-11-02T09:00:00.000Z''\<rparr>)"
  by (simp add: listCloudDocuments_def list_failed_def busy_state_def message_or_def)

text \<open>A successful list replaces the cached documents; a successful delete removes one.\<close>

lemma list_success_replaces:
  "success result \<Longrightarrow> data result = Some docs \<Longrightarrow>
   listCloudDocuments (Inr result) now s =
     Inr (result, s\<lparr>isLoading := False, sync_error := None, cloudDocuments := docs,
                     lastSyncTime := Some now\<rparr>)"
  by (simp add: listCloudDocuments_def)

lemma delete_success_removes:
  "deleteFromCloud (IdNum 7) (Inr (succeeded None ''Document deleted successfully''))
     ''2026-11-03T00:00:00.000Z'' busy_state =
   Inr (succeeded None ''Document deleted successfully'',
        \<lparr>isLoading = False, sync_error = None,
         cloudDocuments = Arr [Obj [(''id'', Num 3), (''title'', Str ''Notes'')]],
         lastSyncTime = Some ''2026-11-03T00:00:00.000Z''\<rparr>)"
  by (simp add: deleteFromCloud_def succeeded_def busy_state_def and_then_def)

end
